theory Spec2Isabelle
  imports Complex_Main "HOL-Library.Sublist"
begin

section \<open>Python values and exceptions\<close>

text \<open>
  The request body, and the body of the upstream answer, are JSON documents as Python
  sees them after parsing: \<open>None\<close>, \<open>bool\<close>, \<open>int\<close>, \<open>float\<close>, \<open>str\<close>, \<open>list\<close> and
  \<open>dict\<close>. A \<open>dict\<close> is kept as the list of its items (its keys are distinct). Of a float
  only its truth value is ever used, so a float is a rational or one of the three special
  values the parser accepts.
\<close>

datatype py_float = Finite rat | PosInf | NegInf | NaN

datatype json =
    JNull
  | JBool bool
  | JInt int
  | JFloat py_float
  | JStr string
  | JList "json list"
  | JObj "(string \<times> json) list"

text \<open>Python's truth value of a parsed JSON value, as tested by \<open>not x\<close>.\<close>

fun float_truthy :: "py_float \<Rightarrow> bool" where
  "float_truthy (Finite q) = (q \<noteq> 0)"
| "float_truthy PosInf = True"
| "float_truthy NegInf = True"
| "float_truthy NaN = True"

fun truthy :: "json \<Rightarrow> bool" where
  "truthy JNull = False"
| "truthy (JBool b) = b"
| "truthy (JInt n) = (n \<noteq> 0)"
| "truthy (JFloat f) = float_truthy f"
| "truthy (JStr s) = (s \<noteq> [])"
| "truthy (JList xs) = (xs \<noteq> [])"
| "truthy (JObj kvs) = (kvs \<noteq> [])"

fun py_type_name :: "json \<Rightarrow> string" where
  "py_type_name JNull = ''NoneType''"
| "py_type_name (JBool b) = ''bool''"
| "py_type_name (JInt n) = ''int''"
| "py_type_name (JFloat f) = ''float''"
| "py_type_name (JStr s) = ''str''"
| "py_type_name (JList xs) = ''list''"
| "py_type_name (JObj kvs) = ''dict''"

text \<open>
  The exceptions of the program, all subclasses of \<open>Exception\<close>.
  \<open>HTTPException status_code detail\<close> is FastAPI's; \<open>HTTPStatusError message status\<close> is
  httpx's, carrying the status code of its response; \<open>OtherException message\<close> is any other
  exception a library raises (a timeout, a transport error, \<open>binascii.Error\<close>, a storage
  client error), kept with the text \<open>str\<close> gives for it.
\<close>

datatype py_exception =
    HTTPException int string
  | HTTPStatusError string int
  | JSONDecodeError string
  | KeyError string
  | AttributeError string
  | IndexError string
  | OtherException string

type_synonym 'a result = "py_exception + 'a"

type_synonym bytes = "char list"

section \<open>The collaborators\<close>

record http_request =
  url :: string
  headers :: "(string \<times> string) list"
  files :: "(string \<times> json) list"
  timeout :: rat

record http_response =
  status_code :: int
  json_result :: "json result"

record put_object_args =
  Bucket :: string
  Key :: string
  Body :: bytes
  ContentType :: string

text \<open>
  What a request sees of the world outside the program: the process environment, the
  clock, the answer of the generation API to a request (\<open>http_client.post\<close>), the result
  of \<open>base64.b64decode\<close>, the result of the store's \<open>put_object\<close> (\<open>None\<close> when it
  succeeds), and two texts that the libraries compose: \<open>str\<close> of an \<open>HTTPException\<close> and
  the message of the error \<open>raise_for_status\<close> raises.
\<close>

record world =
  environ :: "string \<rightharpoonup> string"
  time_time :: rat
  http_client_post :: "http_request \<Rightarrow> http_response result"
  b64decode :: "string \<Rightarrow> bytes result"
  s3_put_object :: "put_object_args \<Rightarrow> py_exception option"
  str_HTTPException :: "int \<Rightarrow> string \<Rightarrow> string"
  status_error_message :: "http_response \<Rightarrow> string"

text \<open>The calls a request makes, in the order it makes them.\<close>

datatype event =
    CallGenerateImage json
  | HttpPost http_request
  | CallUploadToR2 string
  | PutObject put_object_args

type_synonym 'a outcome = "event list \<times> 'a result"

section \<open>Library functions\<close>

definition quote :: char where
  "quote = CHR 0x27"

text \<open>\<open>str(e)\<close> for an exception \<open>e\<close>; \<open>str\<close> of a \<open>KeyError\<close> is the repr of its key.\<close>

fun str_exc :: "world \<Rightarrow> py_exception \<Rightarrow> string" where
  "str_exc w (HTTPException c d) = str_HTTPException w c d"
| "str_exc w (HTTPStatusError m c) = m"
| "str_exc w (JSONDecodeError m) = m"
| "str_exc w (KeyError k) = quote # k @ [quote]"
| "str_exc w (AttributeError m) = m"
| "str_exc w (IndexError m) = m"
| "str_exc w (OtherException m) = m"

definition no_attribute :: "json \<Rightarrow> string \<Rightarrow> py_exception" where
  "no_attribute v a =
     AttributeError (quote # py_type_name v @ quote # '' object has no attribute '' @ quote # a @ [quote])"

text \<open>\<open>os.environ[k]\<close>.\<close>

definition environ_getitem :: "world \<Rightarrow> string \<Rightarrow> string result" where
  "environ_getitem w k = (case environ w k of None \<Rightarrow> Inl (KeyError k) | Some v \<Rightarrow> Inr v)"

text \<open>\<open>d.get(k)\<close> on a \<open>dict\<close> given by its items: \<open>None\<close> when the key is absent.\<close>

definition dict_get :: "(string \<times> json) list \<Rightarrow> string \<Rightarrow> json" where
  "dict_get kvs k = (case map_of kvs k of None \<Rightarrow> JNull | Some v \<Rightarrow> v)"

text \<open>\<open>v.get(k)\<close> on any parsed value: only a \<open>dict\<close> has the method.\<close>

fun py_get :: "json \<Rightarrow> string \<Rightarrow> json result" where
  "py_get (JObj kvs) k = Inr (dict_get kvs k)"
| "py_get v k = Inl (no_attribute v ''get'')"

text \<open>\<open>v.startswith(p)\<close>: only a \<open>str\<close> has the method.\<close>

fun py_startswith :: "json \<Rightarrow> string \<Rightarrow> bool result" where
  "py_startswith (JStr s) p = Inr (prefix p s)"
| "py_startswith v p = Inl (no_attribute v ''startswith'')"

text \<open>\<open>s.split(c)\<close> for a separator of one character.\<close>

function str_split :: "char \<Rightarrow> string \<Rightarrow> string list" where
  "str_split c s =
     takeWhile (\<lambda>x. x \<noteq> c) s #
     (case dropWhile (\<lambda>x. x \<noteq> c) s of [] \<Rightarrow> [] | x # rest \<Rightarrow> str_split c rest)"
  by pat_completeness auto
termination
proof (relation "measure (\<lambda>(c, s). length s)")
  show "wf (measure (\<lambda>(c, s). length s))"
    by simp
next
  fix c :: char and s x rest
  assume "dropWhile (\<lambda>x. x \<noteq> c) s = x # rest"
  then have "length (x # rest) \<le> length s"
    using length_dropWhile_le [of "\<lambda>x. x \<noteq> c" s] by simp
  then show "((c, rest), (c, s)) \<in> measure (\<lambda>(c, s). length s)"
    by simp
qed

declare str_split.simps [simp del]

fun py_split :: "json \<Rightarrow> char \<Rightarrow> string list result" where
  "py_split (JStr s) c = Inr (str_split c s)"
| "py_split v c = Inl (no_attribute v ''split'')"

text \<open>\<open>xs[1]\<close>.\<close>

fun index_1 :: "'a list \<Rightarrow> 'a result" where
  "index_1 (x # y # ys) = Inr y"
| "index_1 xs = Inl (IndexError ''list index out of range'')"

text \<open>
  \<open>response.raise_for_status()\<close>: httpx raises \<open>HTTPStatusError\<close> unless the status code
  is a success code, 200 to 299.
\<close>

definition raise_for_status :: "world \<Rightarrow> http_response \<Rightarrow> unit result" where
  "raise_for_status w response =
     (if 200 \<le> status_code response \<and> status_code response \<le> 299 then Inr ()
      else Inl (HTTPStatusError (status_error_message w response) (status_code response)))"

text \<open>\<open>int(x)\<close> for a float \<open>x\<close>: truncation towards zero.\<close>

definition py_int :: "rat \<Rightarrow> int" where
  "py_int x = (if 0 \<le> x then \<lfloor>x\<rfloor> else \<lceil>x\<rceil>)"

text \<open>\<open>str(n)\<close> for an integer \<open>n\<close>: its decimal digits, with a minus sign when negative.\<close>

definition digit_char :: "nat \<Rightarrow> char" where
  "digit_char d = ''0123456789'' ! d"

function str_nat :: "nat \<Rightarrow> string" where
  "str_nat n = (if n < 10 then [digit_char n] else str_nat (n div 10) @ [digit_char (n mod 10)])"
  by pat_completeness auto
termination
  by (relation "measure id") auto

declare str_nat.simps [simp del]

definition str_int :: "int \<Rightarrow> string" where
  "str_int i = (if i < 0 then CHR ''-'' # str_nat (nat (- i)) else str_nat (nat i))"

section \<open>The program\<close>

subsection \<open>Startup\<close>

text \<open>
  \<open>lifespan\<close> up to its \<open>yield\<close>. The three keyword arguments of \<open>boto3.client\<close> are
  evaluated in order, each an \<open>os.environ[...]\<close>; the construction of the client is a
  parameter, the one of \<open>httpx.AsyncClient()\<close> takes no input.
\<close>

definition lifespan_startup ::
  "(string \<Rightarrow> string \<Rightarrow> string \<Rightarrow> 'c result) \<Rightarrow> world \<Rightarrow> 'c result" where
  "lifespan_startup boto3_client w =
     (case environ_getitem w ''R2_ENDPOINT_URL'' of Inl e \<Rightarrow> Inl e
      | Inr endpoint_url \<Rightarrow>
     (case environ_getitem w ''R2_ACCESS_KEY_ID'' of Inl e \<Rightarrow> Inl e
      | Inr aws_access_key_id \<Rightarrow>
     (case environ_getitem w ''R2_SECRET_ACCESS_KEY'' of Inl e \<Rightarrow> Inl e
      | Inr aws_secret_access_key \<Rightarrow>
        boto3_client endpoint_url aws_access_key_id aws_secret_access_key)))"

subsection \<open>generate_image\<close>

definition data_url_prefix :: string where
  "data_url_prefix = ''data:image/png;base64,''"

text \<open>Lines 71 to 79: from the parsed body of the answer to the returned text.\<close>

definition image_of_response_json :: "json \<Rightarrow> string result" where
  "image_of_response_json response_json =
     (case py_get response_json ''result'' of Inl e \<Rightarrow> Inl e
      | Inr image_data_url \<Rightarrow>
        if \<not> truthy image_data_url
        then Inl (HTTPException 500 ''Invalid image data response'')
        else (case py_startswith image_data_url data_url_prefix of Inl e \<Rightarrow> Inl e
          | Inr starts \<Rightarrow>
            if \<not> starts
            then Inl (HTTPException 500 ''Invalid image data response'')
            else (case py_split image_data_url CHR '','' of Inl e \<Rightarrow> Inl e
              | Inr parts \<Rightarrow> index_1 parts)))"

text \<open>
  The arguments of \<open>http_client.post\<close>. Each entry \<open>name: (None, value)\<close> of \<open>files\<close> is kept
  as the pair of its name and its value.
\<close>

definition generate_request :: "string \<Rightarrow> json \<Rightarrow> http_request" where
  "generate_request api_key prompt =
     \<lparr> url = ''https://api.freeflux.ai/v1/images/generate'',
       headers = [(''accept'', ''application/json''),
                  (''authorization'', ''Bearer '' @ api_key)],
       files = [(''prompt'', prompt),
                (''model'', JStr ''flux_1_schnell''),
                (''size'', JStr ''16_9''),
                (''lora'', JStr ''''),
                (''style'', JStr ''no_style'')],
       timeout = 30 \<rparr>"

text \<open>The body of the \<open>try\<close> block of \<open>generate_image\<close>.\<close>

definition generate_image_try :: "world \<Rightarrow> json \<Rightarrow> string outcome" where
  "generate_image_try w prompt =
     (if environ w ''FLUX_API_KEY'' = None
      then ([], Inl (HTTPException 500 ''FLUX_API_KEY environment variable not set''))
      else (case environ_getitem w ''FLUX_API_KEY'' of Inl e \<Rightarrow> ([], Inl e)
        | Inr api_key \<Rightarrow>
          let request = generate_request api_key prompt
          in ([HttpPost request],
              (case http_client_post w request of Inl e \<Rightarrow> Inl e
               | Inr response \<Rightarrow>
                 (case raise_for_status w response of Inl e \<Rightarrow> Inl e
                  | Inr _ \<Rightarrow>
                    (case json_result response of Inl e \<Rightarrow> Inl e
                     | Inr response_json \<Rightarrow> image_of_response_json response_json))))))"

text \<open>The three \<open>except\<close> clauses of \<open>generate_image\<close>, in their order.\<close>

fun generate_image_except :: "world \<Rightarrow> py_exception \<Rightarrow> py_exception" where
  "generate_image_except w (HTTPStatusError m c) =
     HTTPException c (''Image generation failed: '' @ str_exc w (HTTPStatusError m c))"
| "generate_image_except w (JSONDecodeError m) =
     HTTPException 500 ''Invalid API response format''"
| "generate_image_except w e =
     HTTPException 500 (''Image generation error: '' @ str_exc w e)"

definition generate_image :: "world \<Rightarrow> json \<Rightarrow> string outcome" where
  "generate_image w prompt =
     (case generate_image_try w prompt of
        (evs, Inl e) \<Rightarrow> (CallGenerateImage prompt # evs, Inl (generate_image_except w e))
      | (evs, Inr b64) \<Rightarrow> (CallGenerateImage prompt # evs, Inr b64))"

subsection \<open>upload_to_r2\<close>

text \<open>The loop over \<open>required_vars\<close>: the first variable that is not set raises.\<close>

fun check_required_vars :: "world \<Rightarrow> string list \<Rightarrow> unit result" where
  "check_required_vars w [] = Inr ()"
| "check_required_vars w (var # vars) =
     (if environ w var = None
      then Inl (HTTPException 500 (var @ '' environment variable not set''))
      else check_required_vars w vars)"

definition object_name :: "int \<Rightarrow> string" where
  "object_name timestamp = ''generated_image_'' @ str_int timestamp @ ''.png''"

text \<open>The body of the \<open>try\<close> block of \<open>upload_to_r2\<close>.\<close>

definition upload_to_r2_try :: "world \<Rightarrow> string \<Rightarrow> string outcome" where
  "upload_to_r2_try w image_data =
     (case check_required_vars w [''R2_BUCKET_NAME'', ''R2_PUBLIC_DOMAIN''] of
        Inl e \<Rightarrow> ([], Inl e)
      | Inr _ \<Rightarrow>
     (case b64decode w image_data of Inl e \<Rightarrow> ([], Inl e)
      | Inr image_bytes \<Rightarrow>
     (case environ_getitem w ''R2_BUCKET_NAME'' of Inl e \<Rightarrow> ([], Inl e)
      | Inr bucket \<Rightarrow>
        let args = \<lparr> Bucket = bucket, Key = object_name (py_int (time_time w)),
                         Body = image_bytes, ContentType = ''image/png'' \<rparr>
        in ([PutObject args],
            (case s3_put_object w args of Some e \<Rightarrow> Inl e
             | None \<Rightarrow>
               (case environ_getitem w ''R2_PUBLIC_DOMAIN'' of Inl e \<Rightarrow> Inl e
                | Inr public_domain \<Rightarrow>
                  Inr (''https://'' @ public_domain @ ''/'' @ Key args)))))))"

definition upload_to_r2_except :: "world \<Rightarrow> py_exception \<Rightarrow> py_exception" where
  "upload_to_r2_except w e = HTTPException 500 (''R2 upload failed: '' @ str_exc w e)"

definition upload_to_r2 :: "world \<Rightarrow> string \<Rightarrow> string outcome" where
  "upload_to_r2 w image_data =
     (case upload_to_r2_try w image_data of
        (evs, Inl e) \<Rightarrow> (CallUploadToR2 image_data # evs, Inl (upload_to_r2_except w e))
      | (evs, Inr image_url) \<Rightarrow> (CallUploadToR2 image_data # evs, Inr image_url))"

subsection \<open>generate_endpoint\<close>

text \<open>The body of the \<open>try\<close> block of \<open>generate_endpoint\<close>; the payload is a \<open>dict\<close>.\<close>

definition generate_endpoint_try :: "(string \<times> json) list \<Rightarrow> world \<Rightarrow> json outcome" where
  "generate_endpoint_try payload w =
     (if \<not> truthy (dict_get payload ''prompt'')
      then ([], Inl (HTTPException 400 ''Prompt is required''))
      else (case generate_image w (dict_get payload ''prompt'') of
          (evs, Inl e) \<Rightarrow> (evs, Inl e)
        | (evs, Inr base64_image) \<Rightarrow>
          (case upload_to_r2 w base64_image of
             (evs', Inl e) \<Rightarrow> (evs @ evs', Inl e)
           | (evs', Inr image_url) \<Rightarrow>
             (evs @ evs', Inr (JObj [(''image_url'', JStr image_url)])))))"

text \<open>The two \<open>except\<close> clauses of \<open>generate_endpoint\<close>.\<close>

fun generate_endpoint_except :: "world \<Rightarrow> py_exception \<Rightarrow> py_exception" where
  "generate_endpoint_except w (HTTPException c d) = HTTPException c d"
| "generate_endpoint_except w e =
     HTTPException 500 (''Internal server error: '' @ str_exc w e)"

definition generate_endpoint :: "(string \<times> json) list \<Rightarrow> world \<Rightarrow> json outcome" where
  "generate_endpoint payload w =
     (case generate_endpoint_try payload w of
        (evs, Inl e) \<Rightarrow> (evs, Inl (generate_endpoint_except w e))
      | (evs, Inr body) \<Rightarrow> (evs, Inr body))"

section \<open>Reading a trace\<close>

text \<open>The object keys handed to \<open>put_object\<close> in a trace.\<close>

fun put_keys :: "event list \<Rightarrow> string list" where
  "put_keys [] = []"
| "put_keys (PutObject a # evs) = Key a # put_keys evs"
| "put_keys (ev # evs) = put_keys evs"

section \<open>Reference notions\<close>

text \<open>
  The number that a string of decimal digits denotes, read from the left: the inverse of
  \<open>str\<close> on the natural numbers.
\<close>

definition decimal_value :: "string \<Rightarrow> nat" where
  "decimal_value s = foldl (\<lambda>a c. 10 * a + (of_char c - 48)) 0 s"

text \<open>
  Valid base64 text in the sense of RFC 4648, section 4: characters of the base64
  alphabet, then at most two padding characters, four characters for every three bytes.
\<close>

definition b64_alphabet :: string where
  "b64_alphabet = ''ABCDEFGHIJKLMNOPQRSTUVWXYZabcdefghijklmnopqrstuvwxyz0123456789+/''"


section \<open>Example worlds\<close>

text \<open>
  A deployment with every variable set, a generation API that answers with a well-formed
  data URL, a decoder that accepts that payload and a store that accepts every object;
  then variations of it with one collaborator or one variable changed.
\<close>

definition demo_environ :: "string \<rightharpoonup> string" where
  "demo_environ =
     [''R2_ENDPOINT_URL'' \<mapsto> ''https://r2.example.org'',
      ''R2_ACCESS_KEY_ID'' \<mapsto> ''id'',
      ''R2_SECRET_ACCESS_KEY'' \<mapsto> ''key'',
      ''R2_BUCKET_NAME'' \<mapsto> ''images'',
      ''R2_PUBLIC_DOMAIN'' \<mapsto> ''img.example.org'',
      ''FLUX_API_KEY'' \<mapsto> ''secret'']"

definition answer_with :: "int \<Rightarrow> json result \<Rightarrow> http_request \<Rightarrow> http_response result" where
  "answer_with code body request = Inr \<lparr> status_code = code, json_result = body \<rparr>"

definition demo_b64decode :: "string \<Rightarrow> bytes result" where
  "demo_b64decode s = (if s = ''QUJD'' then Inr ''ABC'' else Inl (OtherException ''Incorrect padding''))"

definition put_ok :: "put_object_args \<Rightarrow> py_exception option" where
  "put_ok a = None"


definition demo_str_HTTPException :: "int \<Rightarrow> string \<Rightarrow> string" where
  "demo_str_HTTPException c d = str_int c @ '': '' @ d"

definition demo_status_error_message :: "http_response \<Rightarrow> string" where
  "demo_status_error_message r = ''Error response '' @ str_int (status_code r)"

definition demo_world :: world where
  "demo_world =
     \<lparr> environ = demo_environ,
       time_time = 1700000000 + 1 / 2,
       http_client_post =
         answer_with 200 (Inr (JObj [(''result'', JStr ''data:image/png;base64,QUJD'')])),
       b64decode = demo_b64decode,
       s3_put_object = put_ok,
       str_HTTPException = demo_str_HTTPException,
       status_error_message = demo_status_error_message \<rparr>"

definition later_world :: world where
  "later_world = demo_world \<lparr> time_time := 1700000000 + 9 / 10 \<rparr>"

definition not_found_world :: world where
  "not_found_world =
     demo_world \<lparr> http_client_post := answer_with 404 (Inr (JObj [(''error'', JStr ''no'')])) \<rparr>"

definition jpeg_world :: world where
  "jpeg_world =
     demo_world \<lparr> http_client_post :=
       answer_with 200 (Inr (JObj [(''result'', JStr ''data:image/jpeg;base64,QUJD'')])) \<rparr>"

definition comma_world :: world where
  "comma_world =
     demo_world \<lparr> http_client_post :=
       answer_with 200 (Inr (JObj [(''result'', JStr ''data:image/png;base64,AA,BB'')])) \<rparr>"


definition no_api_key_world :: world where
  "no_api_key_world = demo_world \<lparr> environ := demo_environ(''FLUX_API_KEY'' := None) \<rparr>"

definition no_bucket_world :: world where
  "no_bucket_world = demo_world \<lparr> environ := demo_environ(''R2_BUCKET_NAME'' := None) \<rparr>"

definition no_endpoint_world :: world where
  "no_endpoint_world = demo_world \<lparr> environ := demo_environ(''R2_ENDPOINT_URL'' := None) \<rparr>"

definition next_second_world :: world where
  "next_second_world = demo_world \<lparr> time_time := 1700000001 + 1 / 4 \<rparr>"

definition pre_epoch_world :: world where
  "pre_epoch_world = demo_world \<lparr> time_time := - 1 / 2 \<rparr>"

text \<open>
  \<open>base64.b64decode\<close> in its default mode discards the characters outside the alphabet
  before it decodes. The decoder of \<open>lenient_world\<close> does so, and then decodes as the one of
  \<open>demo_world\<close>.
\<close>

definition lenient_b64decode :: "string \<Rightarrow> bytes result" where
  "lenient_b64decode s =
     demo_b64decode (filter (\<lambda>c. c \<in> set b64_alphabet \<or> c = CHR ''='') s)"

definition lenient_world :: world where
  "lenient_world = demo_world \<lparr> b64decode := lenient_b64decode \<rparr>"

definition boto3_ok :: "string \<Rightarrow> string \<Rightarrow> string \<Rightarrow> unit result" where
  "boto3_ok endpoint_url aws_access_key_id aws_secret_access_key = Inr ()"

section \<open>Shape of the three functions\<close>

lemma generate_image_outcome:
  "generate_image w p =
     (CallGenerateImage p # fst (generate_image_try w p),
      (case snd (generate_image_try w p) of
         Inl e \<Rightarrow> Inl (generate_image_except w e) | Inr b \<Rightarrow> Inr b))"
  by (simp add: generate_image_def split: prod.splits sum.splits)

lemma upload_to_r2_outcome:
  "upload_to_r2 w d =
     (CallUploadToR2 d # fst (upload_to_r2_try w d),
      (case snd (upload_to_r2_try w d) of
         Inl e \<Rightarrow> Inl (upload_to_r2_except w e) | Inr u \<Rightarrow> Inr u))"
  by (simp add: upload_to_r2_def split: prod.splits sum.splits)

lemma generate_endpoint_reject:
  "\<not> truthy (dict_get payload ''prompt'') \<Longrightarrow>
   generate_endpoint payload w = ([], Inl (HTTPException 400 ''Prompt is required''))"
  by (simp add: generate_endpoint_def generate_endpoint_try_def)

section \<open>Request validation\<close>

text \<open>
  C1. When the payload has no \<open>prompt\<close> key, or its \<open>prompt\<close> is a falsy value (\<open>None\<close>,
  \<open>False\<close>, zero, the empty string, an empty list or an empty object), the endpoint raises
  \<open>HTTPException 400\<close> with detail "Prompt is required", and the trace of the request is
  empty: neither \<open>generate_image\<close> nor \<open>upload_to_r2\<close> is called, and no outbound call is made.
\<close>

theorem falsy_prompt_is_rejected:
  assumes "map_of payload ''prompt'' = None \<or>
           (\<exists>v. map_of payload ''prompt'' = Some v \<and> \<not> truthy v)"
  shows "generate_endpoint payload w = ([], Inl (HTTPException 400 ''Prompt is required''))"
proof -
  from assms have "\<not> truthy (dict_get payload ''prompt'')"
    by (auto simp: dict_get_def)
  then show ?thesis
    by (rule generate_endpoint_reject)
qed

theorem falsy_prompt_is_rejected_witness:
  "map_of [(''prompt'', JStr '''')] ''prompt'' = Some (JStr '''') \<and>
   \<not> truthy (JStr '''') \<and>
   generate_endpoint [(''prompt'', JStr '''')] demo_world =
     ([], Inl (HTTPException 400 ''Prompt is required''))"
  using falsy_prompt_is_rejected [of "[(''prompt'', JStr '''')]" demo_world]
  by simp

section \<open>Failures of the generation step\<close>

lemma generate_image_except_HTTPException:
  "\<exists>c d. generate_image_except w e = HTTPException c d"
  by (cases e) simp_all

lemma generate_endpoint_generation_error:
  assumes "truthy (dict_get payload ''prompt'')"
    and "generate_image w (dict_get payload ''prompt'') = (evs, Inl (HTTPException c d))"
  shows "generate_endpoint payload w = (evs, Inl (HTTPException c d))"
  using assms by (simp add: generate_endpoint_def generate_endpoint_try_def)

lemma generate_image_try_posted:
  assumes "environ w ''FLUX_API_KEY'' = Some api_key"
  shows "generate_image_try w p =
     ([HttpPost (generate_request api_key p)],
      (case http_client_post w (generate_request api_key p) of Inl e \<Rightarrow> Inl e
       | Inr response \<Rightarrow>
         (case raise_for_status w response of Inl e \<Rightarrow> Inl e
          | Inr _ \<Rightarrow>
            (case json_result response of Inl e \<Rightarrow> Inl e
             | Inr response_json \<Rightarrow> image_of_response_json response_json))))"
  using assms by (simp add: generate_image_try_def environ_getitem_def Let_def)

text \<open>
  C3. When the generation API answers with a status code \<open>s\<close> outside 200..299, the
  endpoint raises \<open>HTTPException\<close> with that same status \<open>s\<close>, and the trace of the
  request holds the call of \<open>generate_image\<close> and the outbound request only: the uploader
  is not called.
\<close>

theorem upstream_status_is_passed_through:
  assumes "truthy (dict_get payload ''prompt'')"
    and "environ w ''FLUX_API_KEY'' = Some api_key"
    and "http_client_post w (generate_request api_key (dict_get payload ''prompt'')) = Inr response"
    and "\<not> (200 \<le> status_code response \<and> status_code response \<le> 299)"
  shows "generate_endpoint payload w =
     ([CallGenerateImage (dict_get payload ''prompt''),
       HttpPost (generate_request api_key (dict_get payload ''prompt''))],
      Inl (HTTPException (status_code response)
             (''Image generation failed: '' @ status_error_message w response)))"
proof -
  let ?p = "dict_get payload ''prompt''"
  have "generate_image_try w ?p =
      ([HttpPost (generate_request api_key ?p)],
       Inl (HTTPStatusError (status_error_message w response) (status_code response)))"
    using assms(3,4) by (auto simp: generate_image_try_posted [OF assms(2)] raise_for_status_def)
  then have "generate_image w ?p =
      ([CallGenerateImage ?p, HttpPost (generate_request api_key ?p)],
       Inl (HTTPException (status_code response)
              (''Image generation failed: '' @ status_error_message w response)))"
    by (simp add: generate_image_outcome)
  with assms(1) show ?thesis
    by (rule generate_endpoint_generation_error)
qed

lemma demo_environ_FLUX: "demo_environ ''FLUX_API_KEY'' = Some ''secret''"
  by (simp add: demo_environ_def)

theorem upstream_status_is_passed_through_witness:
  "truthy (dict_get [(''prompt'', JStr ''a cat'')] ''prompt'') \<and>
   environ not_found_world ''FLUX_API_KEY'' = Some ''secret'' \<and>
   status_code \<lparr> status_code = 404, json_result = Inr (JObj [(''error'', JStr ''no'')]) \<rparr> = 404 \<and>
   generate_endpoint [(''prompt'', JStr ''a cat'')] not_found_world =
     ([CallGenerateImage (JStr ''a cat''),
       HttpPost (generate_request ''secret'' (JStr ''a cat''))],
      Inl (HTTPException 404 ''Image generation failed: Error response 404''))"
proof -
  have t: "truthy (dict_get [(''prompt'', JStr ''a cat'')] ''prompt'')"
    by (simp add: dict_get_def)
  have k: "environ not_found_world ''FLUX_API_KEY'' = Some ''secret''"
    by (simp add: not_found_world_def demo_world_def demo_environ_FLUX)
  have r: "http_client_post not_found_world
             (generate_request ''secret'' (dict_get [(''prompt'', JStr ''a cat'')] ''prompt'')) =
           Inr \<lparr> status_code = 404, json_result = Inr (JObj [(''error'', JStr ''no'')]) \<rparr>"
    by (simp add: not_found_world_def answer_with_def)
  have s: "\<not> (200 \<le> status_code \<lparr> status_code = 404, json_result = Inr (JObj [(''error'', JStr ''no'')]) \<rparr>
             \<and> status_code \<lparr> status_code = 404, json_result = Inr (JObj [(''error'', JStr ''no'')]) \<rparr> \<le> 299)"
    by simp
  have m: "status_error_message not_found_world
             \<lparr> status_code = 404, json_result = Inr (JObj [(''error'', JStr ''no'')]) \<rparr> =
           ''Error response 404''"
    by (simp add: not_found_world_def demo_world_def demo_status_error_message_def
        str_int_def digit_char_def str_nat.simps)
  show ?thesis
    using upstream_status_is_passed_through [OF t k r s] t k m
    by (simp add: dict_get_def)
qed

lemma image_of_malformed_response_json:
  assumes "\<forall>s. py_get response_json ''result'' = Inr (JStr s) \<longrightarrow> \<not> prefix data_url_prefix s"
  shows "\<exists>e. image_of_response_json response_json = Inl e \<and>
             generate_image_except w e =
               HTTPException 500 (''Image generation error: '' @ str_exc w e)"
proof (cases "py_get response_json ''result''")
  case (Inl e)
  then have "e = no_attribute response_json ''get''"
    by (cases response_json) auto
  with Inl show ?thesis
    by (simp add: image_of_response_json_def no_attribute_def)
next
  case (Inr v)
  show ?thesis
  proof (cases "truthy v")
    case False
    with Inr show ?thesis
      by (simp add: image_of_response_json_def)
  next
    case True
    show ?thesis
    proof (cases v)
      case (JStr s)
      with Inr assms have "\<not> prefix data_url_prefix s"
        by simp
      with Inr JStr True show ?thesis
        by (simp add: image_of_response_json_def)
    qed (use Inr True in \<open>simp_all add: image_of_response_json_def no_attribute_def\<close>)
  qed
qed

text \<open>
  C4. When the generation API answers with a status code in 200..299 and a JSON body whose
  \<open>result\<close> is not a string that starts with "data:image/png;base64," (the body is not an
  object, the field is missing, it is falsy, it is not a string, or it is a string with
  another prefix), the endpoint raises \<open>HTTPException 500\<close>, and the trace of the request
  holds the call of \<open>generate_image\<close> and the outbound request only: the uploader is not
  called.
\<close>

theorem malformed_result_yields_500:
  assumes "truthy (dict_get payload ''prompt'')"
    and "environ w ''FLUX_API_KEY'' = Some api_key"
    and "http_client_post w (generate_request api_key (dict_get payload ''prompt'')) = Inr response"
    and "200 \<le> status_code response \<and> status_code response \<le> 299"
    and "json_result response = Inr response_json"
    and "\<forall>s. py_get response_json ''result'' = Inr (JStr s) \<longrightarrow> \<not> prefix data_url_prefix s"
  shows "\<exists>m. generate_endpoint payload w =
     ([CallGenerateImage (dict_get payload ''prompt''),
       HttpPost (generate_request api_key (dict_get payload ''prompt''))],
      Inl (HTTPException 500 (''Image generation error: '' @ m)))"
proof -
  let ?p = "dict_get payload ''prompt''"
  obtain e where e: "image_of_response_json response_json = Inl e"
    and x: "generate_image_except w e =
              HTTPException 500 (''Image generation error: '' @ str_exc w e)"
    using image_of_malformed_response_json [OF assms(6)] by blast
  have "generate_image_try w ?p = ([HttpPost (generate_request api_key ?p)], Inl e)"
    using assms(3,4,5) e
    by (simp add: generate_image_try_posted [OF assms(2)] raise_for_status_def)
  then have "generate_image w ?p =
      ([CallGenerateImage ?p, HttpPost (generate_request api_key ?p)],
       Inl (HTTPException 500 (''Image generation error: '' @ str_exc w e)))"
    using x by (simp add: generate_image_outcome)
  with assms(1) have "generate_endpoint payload w =
      ([CallGenerateImage ?p, HttpPost (generate_request api_key ?p)],
       Inl (HTTPException 500 (''Image generation error: '' @ str_exc w e)))"
    by (rule generate_endpoint_generation_error)
  then show ?thesis
    by blast
qed

theorem malformed_result_yields_500_witness:
  "truthy (dict_get [(''prompt'', JStr ''a cat'')] ''prompt'') \<and>
   environ jpeg_world ''FLUX_API_KEY'' = Some ''secret'' \<and>
   py_get (JObj [(''result'', JStr ''data:image/jpeg;base64,QUJD'')]) ''result'' =
     Inr (JStr ''data:image/jpeg;base64,QUJD'') \<and>
   \<not> prefix data_url_prefix ''data:image/jpeg;base64,QUJD'' \<and>
   (\<exists>m. generate_endpoint [(''prompt'', JStr ''a cat'')] jpeg_world =
     ([CallGenerateImage (JStr ''a cat''),
       HttpPost (generate_request ''secret'' (JStr ''a cat''))],
      Inl (HTTPException 500 (''Image generation error: '' @ m))))"
proof -
  let ?body = "JObj [(''result'', JStr ''data:image/jpeg;base64,QUJD'')]"
  let ?response = "\<lparr> status_code = 200, json_result = Inr ?body \<rparr>"
  have t: "truthy (dict_get [(''prompt'', JStr ''a cat'')] ''prompt'')"
    by (simp add: dict_get_def)
  have k: "environ jpeg_world ''FLUX_API_KEY'' = Some ''secret''"
    by (simp add: jpeg_world_def demo_world_def demo_environ_FLUX)
  have r: "http_client_post jpeg_world
             (generate_request ''secret'' (dict_get [(''prompt'', JStr ''a cat'')] ''prompt'')) =
           Inr ?response"
    by (simp add: jpeg_world_def answer_with_def)
  have s: "200 \<le> status_code ?response \<and> status_code ?response \<le> 299"
    by simp
  have j: "json_result ?response = Inr ?body"
    by simp
  have g: "py_get ?body ''result'' = Inr (JStr ''data:image/jpeg;base64,QUJD'')"
    by (simp add: dict_get_def)
  have n: "\<not> prefix data_url_prefix ''data:image/jpeg;base64,QUJD''"
    by (simp add: data_url_prefix_def)
  have q: "\<forall>s. py_get ?body ''result'' = Inr (JStr s) \<longrightarrow> \<not> prefix data_url_prefix s"
    using g n by simp
  show ?thesis
    using malformed_result_yields_500 [OF t k r s j q] t k g n
    by (simp add: dict_get_def)
qed

section \<open>The text that generate_image returns\<close>

lemma str_split_first:
  "str_split c s = takeWhile (\<lambda>x. x \<noteq> c) s # tl (str_split c s)"
  by (simp add: str_split.simps [of c s])

lemma str_split_data_url:
  "str_split CHR '','' (data_url_prefix @ rest) =
     ''data:image/png;base64'' # str_split CHR '','' rest"
  by (subst str_split.simps) (simp add: data_url_prefix_def)

lemma image_of_data_url:
  assumes "py_get response_json ''result'' = Inr (JStr s)"
    and "prefix data_url_prefix s"
  shows "image_of_response_json response_json =
     Inr (takeWhile (\<lambda>x. x \<noteq> CHR '','') (drop (length data_url_prefix) s))"
proof -
  from assms(2) obtain rest where s: "s = data_url_prefix @ rest"
    by (auto simp: prefix_def)
  have "s \<noteq> []"
    using s by (simp add: data_url_prefix_def)
  moreover have "index_1 (str_split CHR '','' s) = Inr (takeWhile (\<lambda>x. x \<noteq> CHR '','') rest)"
    unfolding s str_split_data_url by (subst str_split_first) simp
  ultimately show ?thesis
    using assms by (simp add: image_of_response_json_def s)
qed

text \<open>
  C5, as the code has it. When the \<open>result\<close> of the answer is a string \<open>s\<close> that starts with
  "data:image/png;base64,", \<open>generate_image\<close> returns element 1 of \<open>s.split(",")\<close>: the text
  after the first comma of \<open>s\<close> up to the next comma, or up to the end of \<open>s\<close> when there is
  no other comma. It returns the whole text after the first comma exactly when that text
  holds no comma.
\<close>

theorem generate_image_returns_first_segment:
  assumes "environ w ''FLUX_API_KEY'' = Some api_key"
    and "http_client_post w (generate_request api_key prompt) = Inr response"
    and "200 \<le> status_code response \<and> status_code response \<le> 299"
    and "json_result response = Inr response_json"
    and "py_get response_json ''result'' = Inr (JStr s)"
    and "prefix data_url_prefix s"
  shows "generate_image w prompt =
     ([CallGenerateImage prompt, HttpPost (generate_request api_key prompt)],
      Inr (takeWhile (\<lambda>x. x \<noteq> CHR '','') (drop (length data_url_prefix) s))) \<and>
     (snd (generate_image w prompt) = Inr (drop (length data_url_prefix) s) \<longleftrightarrow>
      CHR '','' \<notin> set (drop (length data_url_prefix) s))"
proof -
  let ?rest = "drop (length data_url_prefix) s"
  have "generate_image_try w prompt =
      ([HttpPost (generate_request api_key prompt)],
       Inr (takeWhile (\<lambda>x. x \<noteq> CHR '','') ?rest))"
    using assms(2,3,4) image_of_data_url [OF assms(5,6)]
    by (simp add: generate_image_try_posted [OF assms(1)] raise_for_status_def)
  then have g: "generate_image w prompt =
      ([CallGenerateImage prompt, HttpPost (generate_request api_key prompt)],
       Inr (takeWhile (\<lambda>x. x \<noteq> CHR '','') ?rest))"
    by (simp add: generate_image_outcome)
  have "takeWhile (\<lambda>x. x \<noteq> CHR '','') ?rest = ?rest \<longleftrightarrow> CHR '','' \<notin> set ?rest"
    unfolding takeWhile_eq_all_conv by blast
  with g show ?thesis
    by simp
qed

theorem generate_image_returns_first_segment_witness:
  "environ demo_world ''FLUX_API_KEY'' = Some ''secret'' \<and>
   py_get (JObj [(''result'', JStr ''data:image/png;base64,QUJD'')]) ''result'' =
     Inr (JStr ''data:image/png;base64,QUJD'') \<and>
   prefix data_url_prefix ''data:image/png;base64,QUJD'' \<and>
   CHR '','' \<notin> set (drop (length data_url_prefix) ''data:image/png;base64,QUJD'') \<and>
   generate_image demo_world (JStr ''a cat'') =
     ([CallGenerateImage (JStr ''a cat''), HttpPost (generate_request ''secret'' (JStr ''a cat''))],
      Inr ''QUJD'')"
proof -
  let ?url = "''data:image/png;base64,QUJD''"
  let ?body = "JObj [(''result'', JStr ?url)]"
  let ?response = "\<lparr> status_code = 200, json_result = Inr ?body \<rparr>"
  have k: "environ demo_world ''FLUX_API_KEY'' = Some ''secret''"
    by (simp add: demo_world_def demo_environ_FLUX)
  have r: "http_client_post demo_world (generate_request ''secret'' (JStr ''a cat'')) = Inr ?response"
    by (simp add: demo_world_def answer_with_def)
  have s: "200 \<le> status_code ?response \<and> status_code ?response \<le> 299"
    by simp
  have j: "json_result ?response = Inr ?body"
    by simp
  have g: "py_get ?body ''result'' = Inr (JStr ?url)"
    by (simp add: dict_get_def)
  have p: "prefix data_url_prefix ?url"
    by (simp add: data_url_prefix_def)
  have c: "CHR '','' \<notin> set (drop (length data_url_prefix) ?url)"
    by (simp add: data_url_prefix_def)
  have d: "drop (length data_url_prefix) ?url = ''QUJD''"
    by (simp add: data_url_prefix_def)
  show ?thesis
    using generate_image_returns_first_segment [OF k r s j g p] k g p c
    by (simp add: d)
qed

text \<open>
  C5, read with the whole text after the first comma, does not hold: for the answer
  "data:image/png;base64,AA,BB" the text after the first comma is "AA,BB", and
  \<open>generate_image\<close> returns "AA".
\<close>

theorem full_suffix_counterexample:
  "http_client_post comma_world (generate_request ''secret'' (JStr ''a cat'')) =
     Inr \<lparr> status_code = 200,
           json_result = Inr (JObj [(''result'', JStr ''data:image/png;base64,AA,BB'')]) \<rparr> \<and>
   prefix data_url_prefix ''data:image/png;base64,AA,BB'' \<and>
   ''data:image/png;base64,AA,BB'' = ''data:image/png;base64'' @ '','' @ ''AA,BB'' \<and>
   CHR '','' \<notin> set ''data:image/png;base64'' \<and>
   snd (generate_image comma_world (JStr ''a cat'')) = Inr ''AA'' \<and>
   snd (generate_image comma_world (JStr ''a cat'')) \<noteq> Inr ''AA,BB''"
proof -
  have k: "environ comma_world ''FLUX_API_KEY'' = Some ''secret''"
    by (simp add: comma_world_def demo_world_def demo_environ_FLUX)
  have r: "http_client_post comma_world (generate_request ''secret'' (JStr ''a cat'')) =
     Inr \<lparr> status_code = 200,
           json_result = Inr (JObj [(''result'', JStr ''data:image/png;base64,AA,BB'')]) \<rparr>"
    by (simp add: comma_world_def answer_with_def)
  have i: "image_of_response_json (JObj [(''result'', JStr ''data:image/png;base64,AA,BB'')]) =
     Inr ''AA''"
    by (simp add: image_of_response_json_def dict_get_def data_url_prefix_def str_split.simps)
  have "snd (generate_image comma_world (JStr ''a cat'')) = Inr ''AA''"
    by (simp add: generate_image_outcome generate_image_try_posted [OF k] r i raise_for_status_def)
  then show ?thesis
    using r by (simp add: data_url_prefix_def)
qed

section \<open>Missing environment variables\<close>

lemma lifespan_startup_reads:
  assumes "environ w' ''R2_ENDPOINT_URL'' = environ w ''R2_ENDPOINT_URL''"
    and "environ w' ''R2_ACCESS_KEY_ID'' = environ w ''R2_ACCESS_KEY_ID''"
    and "environ w' ''R2_SECRET_ACCESS_KEY'' = environ w ''R2_SECRET_ACCESS_KEY''"
  shows "lifespan_startup boto3_client w' = lifespan_startup boto3_client w"
  using assms by (simp add: lifespan_startup_def environ_getitem_def split: option.splits)

lemma lifespan_startup_KeyError:
  assumes "environ w ''R2_ENDPOINT_URL'' = None \<or> environ w ''R2_ACCESS_KEY_ID'' = None \<or>
           environ w ''R2_SECRET_ACCESS_KEY'' = None"
  shows "\<exists>k. lifespan_startup boto3_client w = Inl (KeyError k) \<and> environ w k = None"
  using assms
  by (auto simp: lifespan_startup_def environ_getitem_def split: option.splits)

lemma generate_image_without_api_key:
  assumes "environ w ''FLUX_API_KEY'' = None"
  shows "generate_image w prompt =
     ([CallGenerateImage prompt],
      Inl (HTTPException 500 (''Image generation error: '' @
             str_HTTPException w 500 ''FLUX_API_KEY environment variable not set'')))"
  using assms by (simp add: generate_image_outcome generate_image_try_def)

lemma upload_to_r2_without_bucket:
  assumes "environ w ''R2_BUCKET_NAME'' = None"
  shows "upload_to_r2 w image_data =
     ([CallUploadToR2 image_data],
      Inl (HTTPException 500 (''R2 upload failed: '' @
             str_HTTPException w 500 ''R2_BUCKET_NAME environment variable not set'')))"
  using assms by (simp add: upload_to_r2_outcome upload_to_r2_try_def upload_to_r2_except_def)

lemma upload_to_r2_without_public_domain:
  assumes "environ w ''R2_BUCKET_NAME'' = Some bucket"
    and "environ w ''R2_PUBLIC_DOMAIN'' = None"
  shows "upload_to_r2 w image_data =
     ([CallUploadToR2 image_data],
      Inl (HTTPException 500 (''R2 upload failed: '' @
             str_HTTPException w 500 ''R2_PUBLIC_DOMAIN environment variable not set'')))"
  using assms by (simp add: upload_to_r2_outcome upload_to_r2_try_def upload_to_r2_except_def)

text \<open>
  C6, as the code has it. The startup reads \<open>R2_ENDPOINT_URL\<close>, \<open>R2_ACCESS_KEY_ID\<close> and
  \<open>R2_SECRET_ACCESS_KEY\<close> and nothing else: when one of these three is absent the startup
  raises \<open>KeyError\<close> for an absent variable, and removing \<open>FLUX_API_KEY\<close>, \<open>R2_BUCKET_NAME\<close>
  or \<open>R2_PUBLIC_DOMAIN\<close> does not change its result. When \<open>FLUX_API_KEY\<close> is absent,
  \<open>generate_image\<close> raises \<open>HTTPException 500\<close> without an outbound call; when
  \<open>R2_BUCKET_NAME\<close> or \<open>R2_PUBLIC_DOMAIN\<close> is absent, \<open>upload_to_r2\<close> raises
  \<open>HTTPException 500\<close> without a call of \<open>put_object\<close>.
\<close>

theorem missing_variable_behaviour:
  "(v \<in> {''FLUX_API_KEY'', ''R2_BUCKET_NAME'', ''R2_PUBLIC_DOMAIN''} \<longrightarrow>
      lifespan_startup boto3_client (w \<lparr> environ := (environ w)(v := None) \<rparr>) =
      lifespan_startup boto3_client w) \<and>
   (environ w ''FLUX_API_KEY'' = None \<longrightarrow>
      (\<exists>d. generate_image w prompt = ([CallGenerateImage prompt], Inl (HTTPException 500 d)))) \<and>
   (environ w ''R2_BUCKET_NAME'' = None \<or> environ w ''R2_PUBLIC_DOMAIN'' = None \<longrightarrow>
      (\<exists>d. upload_to_r2 w image_data = ([CallUploadToR2 image_data], Inl (HTTPException 500 d)))) \<and>
   (environ w ''R2_ENDPOINT_URL'' = None \<or> environ w ''R2_ACCESS_KEY_ID'' = None \<or>
    environ w ''R2_SECRET_ACCESS_KEY'' = None \<longrightarrow>
      (\<exists>k. lifespan_startup boto3_client w = Inl (KeyError k) \<and> environ w k = None))"
proof (intro conjI impI)
  assume "v \<in> {''FLUX_API_KEY'', ''R2_BUCKET_NAME'', ''R2_PUBLIC_DOMAIN''}"
  then show "lifespan_startup boto3_client (w \<lparr> environ := (environ w)(v := None) \<rparr>) =
      lifespan_startup boto3_client w"
    by (intro lifespan_startup_reads) auto
next
  assume "environ w ''FLUX_API_KEY'' = None"
  then show "\<exists>d. generate_image w prompt = ([CallGenerateImage prompt], Inl (HTTPException 500 d))"
    by (simp add: generate_image_without_api_key)
next
  assume a: "environ w ''R2_BUCKET_NAME'' = None \<or> environ w ''R2_PUBLIC_DOMAIN'' = None"
  show "\<exists>d. upload_to_r2 w image_data = ([CallUploadToR2 image_data], Inl (HTTPException 500 d))"
  proof (cases "environ w ''R2_BUCKET_NAME''")
    case None
    then show ?thesis
      by (simp add: upload_to_r2_without_bucket)
  next
    case (Some bucket)
    with a have "environ w ''R2_PUBLIC_DOMAIN'' = None"
      by simp
    with Some show ?thesis
      by (simp add: upload_to_r2_without_public_domain)
  qed
next
  assume "environ w ''R2_ENDPOINT_URL'' = None \<or> environ w ''R2_ACCESS_KEY_ID'' = None \<or>
    environ w ''R2_SECRET_ACCESS_KEY'' = None"
  then show "\<exists>k. lifespan_startup boto3_client w = Inl (KeyError k) \<and> environ w k = None"
    by (rule lifespan_startup_KeyError)
qed

lemma demo_startup: "lifespan_startup boto3_ok demo_world = Inr ()"
  by (simp add: lifespan_startup_def environ_getitem_def demo_world_def demo_environ_def boto3_ok_def)

theorem missing_variable_behaviour_witness:
  "environ no_api_key_world ''FLUX_API_KEY'' = None \<and>
   environ no_bucket_world ''R2_BUCKET_NAME'' = None \<and>
   environ no_endpoint_world ''R2_ENDPOINT_URL'' = None \<and>
   lifespan_startup boto3_ok (demo_world \<lparr> environ := (environ demo_world)(''FLUX_API_KEY'' := None) \<rparr>) =
     Inr () \<and>
   (\<exists>d. generate_image no_api_key_world (JStr ''a cat'') =
     ([CallGenerateImage (JStr ''a cat'')], Inl (HTTPException 500 d))) \<and>
   (\<exists>d. upload_to_r2 no_bucket_world ''QUJD'' =
     ([CallUploadToR2 ''QUJD''], Inl (HTTPException 500 d))) \<and>
   (\<exists>k. lifespan_startup boto3_ok no_endpoint_world = Inl (KeyError k) \<and>
        environ no_endpoint_world k = None)"
proof -
  have a: "environ no_api_key_world ''FLUX_API_KEY'' = None"
    by (simp add: no_api_key_world_def)
  have b: "environ no_bucket_world ''R2_BUCKET_NAME'' = None"
    by (simp add: no_bucket_world_def)
  have e: "environ no_endpoint_world ''R2_ENDPOINT_URL'' = None"
    by (simp add: no_endpoint_world_def)
  have v: "''FLUX_API_KEY'' \<in> {''FLUX_API_KEY'', ''R2_BUCKET_NAME'', ''R2_PUBLIC_DOMAIN''}"
    by simp
  note m = missing_variable_behaviour [where boto3_client = boto3_ok and prompt = "JStr ''a cat''"
      and image_data = "''QUJD''"]
  from m [of "''FLUX_API_KEY''" demo_world] v
  have s: "lifespan_startup boto3_ok
      (demo_world \<lparr> environ := (environ demo_world)(''FLUX_API_KEY'' := None) \<rparr>) = Inr ()"
    by (simp add: demo_startup)
  from m [of "''FLUX_API_KEY''" no_api_key_world] a
  have g: "\<exists>d. generate_image no_api_key_world (JStr ''a cat'') =
      ([CallGenerateImage (JStr ''a cat'')], Inl (HTTPException 500 d))"
    by blast
  from m [of "''FLUX_API_KEY''" no_bucket_world] b
  have u: "\<exists>d. upload_to_r2 no_bucket_world ''QUJD'' =
      ([CallUploadToR2 ''QUJD''], Inl (HTTPException 500 d))"
    by blast
  from m [of "''FLUX_API_KEY''" no_endpoint_world] e
  have l: "\<exists>k. lifespan_startup boto3_ok no_endpoint_world = Inl (KeyError k) \<and>
      environ no_endpoint_world k = None"
    by blast
  from a b e s g u l show ?thesis
    by blast
qed

text \<open>
  C6, read for all six variables, does not hold for \<open>R2_ENDPOINT_URL\<close>: without it the
  startup itself raises \<open>KeyError\<close>, before any request is served.
\<close>

theorem startup_counterexample:
  "environ no_endpoint_world ''R2_ENDPOINT_URL'' = None \<and>
   lifespan_startup boto3_ok no_endpoint_world = Inl (KeyError ''R2_ENDPOINT_URL'')"
  by (simp add: no_endpoint_world_def lifespan_startup_def environ_getitem_def)

section \<open>The uploader\<close>

lemma upload_to_r2_try_put:
  assumes "environ w ''R2_BUCKET_NAME'' = Some bucket"
    and "environ w ''R2_PUBLIC_DOMAIN'' = Some public_domain"
    and "b64decode w image_data = Inr image_bytes"
  shows "upload_to_r2_try w image_data =
     ([PutObject \<lparr> Bucket = bucket, Key = object_name (py_int (time_time w)),
                   Body = image_bytes, ContentType = ''image/png'' \<rparr>],
      (case s3_put_object w \<lparr> Bucket = bucket, Key = object_name (py_int (time_time w)),
                              Body = image_bytes, ContentType = ''image/png'' \<rparr> of
         Some e \<Rightarrow> Inl e
       | None \<Rightarrow> Inr (''https://'' @ public_domain @ ''/'' @ object_name (py_int (time_time w)))))"
  using assms
  by (simp add: upload_to_r2_try_def environ_getitem_def Let_def split: option.splits)





lemma demo_environ_R2:
  "demo_environ ''R2_BUCKET_NAME'' = Some ''images''"
  "demo_environ ''R2_PUBLIC_DOMAIN'' = Some ''img.example.org''"
  by (simp_all add: demo_environ_def)

lemma demo_clock:
  "py_int (time_time demo_world) = 1700000000"
  "py_int (time_time later_world) = 1700000000"
  "py_int (time_time lenient_world) = 1700000000"
  "py_int (time_time next_second_world) = 1700000001"
  by (simp_all add: py_int_def demo_world_def later_world_def lenient_world_def
      next_second_world_def floor_eq_iff)

lemma pre_epoch_clock:
  "py_int (time_time pre_epoch_world) = 0"
  by (simp add: py_int_def pre_epoch_world_def ceiling_eq_iff)

lemma str_int_demo:
  "str_int 1700000000 = ''1700000000''"
  "str_int 1700000001 = ''1700000001''"
  "str_int 0 = ''0''"
  by (simp_all add: str_int_def digit_char_def str_nat.simps)




lemma py_int_whole_seconds:
  "0 \<le> t \<Longrightarrow> py_int t = \<lfloor>t\<rfloor>"
  by (simp add: py_int_def)

lemma py_int_before_epoch:
  "t < 0 \<Longrightarrow> py_int t = \<lceil>t\<rceil>"
  by (simp add: py_int_def)

lemma digit_char_value:
  assumes "d < 10"
  shows "of_char (digit_char d) = (48 + d :: nat)"
proof -
  from assms have "d \<in> {0, 1, 2, 3, 4, 5, 6, 7, 8, 9}"
    by auto
  then show ?thesis
    by (auto simp: digit_char_def)
qed

lemma digit_char_digit:
  assumes "d < 10"
  shows "digit_char d \<in> set ''0123456789''"
  unfolding digit_char_def using assms by (intro nth_mem) simp

lemma decimal_value_snoc:
  "decimal_value (s @ [c]) = 10 * decimal_value s + (of_char c - 48)"
  by (simp add: decimal_value_def)

lemma str_nat_digits: "set (str_nat n) \<subseteq> set ''0123456789''"
proof (induction n rule: str_nat.induct)
  case (1 n)
  show ?case
  proof (cases "n < 10")
    case True
    then show ?thesis
      using digit_char_digit [of n] by (subst str_nat.simps) simp
  next
    case False
    then show ?thesis
      using 1 digit_char_digit [of "n mod 10"] by (subst str_nat.simps) simp
  qed
qed

lemma decimal_value_str_nat: "decimal_value (str_nat n) = n"
proof (induction n rule: str_nat.induct)
  case (1 n)
  show ?case
  proof (cases "n < 10")
    case True
    then show ?thesis
      by (subst str_nat.simps) (simp add: decimal_value_def digit_char_value)
  next
    case False
    then have "decimal_value (str_nat (n div 10)) = n div 10"
      using 1 by simp
    with False show ?thesis
      by (subst str_nat.simps) (simp add: decimal_value_snoc digit_char_value)
  qed
qed

lemma str_nat_not_empty: "str_nat n \<noteq> []"
  by (subst str_nat.simps) simp

lemma str_nat_leading_zero:
  "hd (str_nat n) = CHR ''0'' \<Longrightarrow> n = 0"
proof (induction n rule: str_nat.induct)
  case (1 n)
  show ?case
  proof (cases "n < 10")
    case True
    then have "n \<in> {0, 1, 2, 3, 4, 5, 6, 7, 8, 9}"
      by auto
    with 1(2) show ?thesis
      by (subst (asm) str_nat.simps) (auto simp: digit_char_def)
  next
    case False
    with 1(2) have "hd (str_nat (n div 10)) = CHR ''0''"
      by (subst (asm) str_nat.simps) (simp add: str_nat_not_empty)
    with 1(1) False have "n div 10 = 0"
      by simp
    with False show ?thesis
      by simp
  qed
qed

lemma str_nat_inj: "str_nat m = str_nat n \<Longrightarrow> m = n"
  using decimal_value_str_nat by metis

lemma str_int_inj:
  assumes "str_int i = str_int j"
  shows "i = j"
proof -
  have minus: "CHR ''-'' \<notin> set (str_nat n)" for n
    using str_nat_digits [of n] by auto
  show ?thesis
  proof (cases "i < 0")
    case i: True
    show ?thesis
    proof (cases "j < 0")
      case True
      with i assms have "nat (- i) = nat (- j)"
        by (auto simp: str_int_def dest: str_nat_inj)
      with i True show ?thesis
        by simp
    next
      case False
      with i assms have "CHR ''-'' # str_nat (nat (- i)) = str_nat (nat j)"
        by (simp add: str_int_def)
      then have "CHR ''-'' \<in> set (str_nat (nat j))"
        by (metis list.set_intros(1))
      with minus show ?thesis
        by blast
    qed
  next
    case i: False
    show ?thesis
    proof (cases "j < 0")
      case True
      with i assms have "str_nat (nat i) = CHR ''-'' # str_nat (nat (- j))"
        by (simp add: str_int_def)
      then have "CHR ''-'' \<in> set (str_nat (nat i))"
        by (metis list.set_intros(1))
      with minus show ?thesis
        by blast
    next
      case False
      with i assms have "nat i = nat j"
        by (auto simp: str_int_def dest: str_nat_inj)
      with i False show ?thesis
        by simp
    qed
  qed
qed

lemma object_name_inj:
  "object_name i = object_name j \<longleftrightarrow> i = j"
  by (auto simp: object_name_def dest: str_int_inj)

lemma str_int_decimal:
  assumes "0 \<le> i"
  shows "set (str_int i) \<subseteq> set ''0123456789''"
    and "int (decimal_value (str_int i)) = i"
    and "hd (str_int i) = CHR ''0'' \<Longrightarrow> i = 0"
  using assms str_nat_digits [of "nat i"] str_nat_leading_zero [of "nat i"]
  by (simp_all add: str_int_def decimal_value_str_nat)

lemma upload_to_r2_put_keys:
  assumes "environ w ''R2_BUCKET_NAME'' = Some bucket"
    and "environ w ''R2_PUBLIC_DOMAIN'' = Some public_domain"
    and "b64decode w image_data = Inr image_bytes"
  shows "put_keys (fst (upload_to_r2 w image_data)) = [object_name (py_int (time_time w))]"
  by (simp add: upload_to_r2_outcome upload_to_r2_try_put [OF assms])

text \<open>
  C2. With \<open>R2_BUCKET_NAME\<close> and \<open>R2_PUBLIC_DOMAIN\<close> set and an input the decoder accepts, a
  call of \<open>upload_to_r2\<close> at clock reading \<open>t\<close> hands \<open>put_object\<close> the key
  "generated_image_" followed by \<open>str(int(t))\<close> and ".png". For \<open>t\<close> at or after the epoch,
  \<open>int(t)\<close> is the whole seconds of \<open>t\<close> and \<open>str(int(t))\<close> is their decimal numeral: digits
  only, of that value, with no leading zero; before the epoch \<open>int(t)\<close> rounds towards zero.
  When \<open>put_object\<close> succeeds the call returns "https://", the public domain, "/" and that
  key. Two calls hand \<open>put_object\<close> the same key exactly when their readings have the same
  \<open>int(t)\<close>; so two calls at or after the epoch whose readings have the same whole seconds
  hand \<open>put_object\<close> the same key.
\<close>

theorem object_key_from_clock:
  assumes "environ w ''R2_BUCKET_NAME'' = Some bucket"
    and "environ w ''R2_PUBLIC_DOMAIN'' = Some public_domain"
    and "b64decode w image_data = Inr image_bytes"
    and "environ w' ''R2_BUCKET_NAME'' = Some bucket'"
    and "environ w' ''R2_PUBLIC_DOMAIN'' = Some public_domain'"
    and "b64decode w' image_data' = Inr image_bytes'"
  shows "fst (upload_to_r2 w image_data) =
       [CallUploadToR2 image_data,
        PutObject \<lparr> Bucket = bucket,
                    Key = ''generated_image_'' @ str_int (py_int (time_time w)) @ ''.png'',
                    Body = image_bytes, ContentType = ''image/png'' \<rparr>] \<and>
     (0 \<le> time_time w \<longrightarrow>
        py_int (time_time w) = \<lfloor>time_time w\<rfloor> \<and>
        set (str_int (py_int (time_time w))) \<subseteq> set ''0123456789'' \<and>
        int (decimal_value (str_int (py_int (time_time w)))) = \<lfloor>time_time w\<rfloor> \<and>
        (hd (str_int (py_int (time_time w))) = CHR ''0'' \<longrightarrow> \<lfloor>time_time w\<rfloor> = 0)) \<and>
     (time_time w < 0 \<longrightarrow> py_int (time_time w) = \<lceil>time_time w\<rceil>) \<and>
     (s3_put_object w \<lparr> Bucket = bucket,
                         Key = ''generated_image_'' @ str_int (py_int (time_time w)) @ ''.png'',
                         Body = image_bytes, ContentType = ''image/png'' \<rparr> = None \<longrightarrow>
        snd (upload_to_r2 w image_data) =
          Inr (''https://'' @ public_domain @ ''/'' @
               ''generated_image_'' @ str_int (py_int (time_time w)) @ ''.png'')) \<and>
     (put_keys (fst (upload_to_r2 w image_data)) = put_keys (fst (upload_to_r2 w' image_data')) \<longleftrightarrow>
        py_int (time_time w) = py_int (time_time w')) \<and>
     (0 \<le> time_time w \<and> 0 \<le> time_time w' \<and> \<lfloor>time_time w\<rfloor> = \<lfloor>time_time w'\<rfloor> \<longrightarrow>
        put_keys (fst (upload_to_r2 w image_data)) = put_keys (fst (upload_to_r2 w' image_data')))"
proof -
  let ?ts = "py_int (time_time w)"
  have 1: "fst (upload_to_r2 w image_data) =
       [CallUploadToR2 image_data,
        PutObject \<lparr> Bucket = bucket,
                    Key = ''generated_image_'' @ str_int ?ts @ ''.png'',
                    Body = image_bytes, ContentType = ''image/png'' \<rparr>]"
    by (simp add: upload_to_r2_outcome upload_to_r2_try_put [OF assms(1,2,3)] object_name_def)
  have 2: "?ts = \<lfloor>time_time w\<rfloor> \<and>
        set (str_int ?ts) \<subseteq> set ''0123456789'' \<and>
        int (decimal_value (str_int ?ts)) = \<lfloor>time_time w\<rfloor> \<and>
        (hd (str_int ?ts) = CHR ''0'' \<longrightarrow> \<lfloor>time_time w\<rfloor> = 0)"
    if "0 \<le> time_time w"
  proof -
    from that have f: "?ts = \<lfloor>time_time w\<rfloor>"
      by (rule py_int_whole_seconds)
    from that have "0 \<le> \<lfloor>time_time w\<rfloor>"
      by simp
    from str_int_decimal [OF this] f show ?thesis
      by simp
  qed
  have 3: "?ts = \<lceil>time_time w\<rceil>" if "time_time w < 0"
    using that by (rule py_int_before_epoch)
  have 4: "snd (upload_to_r2 w image_data) =
          Inr (''https://'' @ public_domain @ ''/'' @ ''generated_image_'' @ str_int ?ts @ ''.png'')"
    if "s3_put_object w \<lparr> Bucket = bucket,
                         Key = ''generated_image_'' @ str_int ?ts @ ''.png'',
                         Body = image_bytes, ContentType = ''image/png'' \<rparr> = None"
    using that
    by (simp add: upload_to_r2_outcome upload_to_r2_try_put [OF assms(1,2,3)] object_name_def)
  have 5: "put_keys (fst (upload_to_r2 w image_data)) = put_keys (fst (upload_to_r2 w' image_data')) \<longleftrightarrow>
        ?ts = py_int (time_time w')"
    by (simp add: upload_to_r2_put_keys [OF assms(1,2,3)] upload_to_r2_put_keys [OF assms(4,5,6)]
        object_name_inj)
  have 6: "put_keys (fst (upload_to_r2 w image_data)) = put_keys (fst (upload_to_r2 w' image_data'))"
    if "0 \<le> time_time w \<and> 0 \<le> time_time w' \<and> \<lfloor>time_time w\<rfloor> = \<lfloor>time_time w'\<rfloor>"
  proof -
    from that have "?ts = py_int (time_time w')"
      by (simp add: py_int_whole_seconds)
    with 5 show ?thesis
      by simp
  qed
  from 1 2 3 4 5 6 show ?thesis
    by blast
qed

theorem object_key_from_clock_witness:
  "time_time demo_world = 1700000000 + 1 / 2 \<and>
   time_time later_world = 1700000000 + 9 / 10 \<and>
   time_time next_second_world = 1700000001 + 1 / 4 \<and>
   time_time pre_epoch_world = - 1 / 2 \<and>
   fst (upload_to_r2 demo_world ''QUJD'') =
     [CallUploadToR2 ''QUJD'',
      PutObject \<lparr> Bucket = ''images'', Key = ''generated_image_1700000000.png'',
                  Body = ''ABC'', ContentType = ''image/png'' \<rparr>] \<and>
   snd (upload_to_r2 demo_world ''QUJD'') =
     Inr ''https://img.example.org/generated_image_1700000000.png'' \<and>
   int (decimal_value (str_int (py_int (time_time demo_world)))) = 1700000000 \<and>
   put_keys (fst (upload_to_r2 demo_world ''QUJD'')) =
     put_keys (fst (upload_to_r2 later_world ''QUJD'')) \<and>
   put_keys (fst (upload_to_r2 next_second_world ''QUJD'')) = [''generated_image_1700000001.png''] \<and>
   put_keys (fst (upload_to_r2 demo_world ''QUJD'')) \<noteq>
     put_keys (fst (upload_to_r2 next_second_world ''QUJD'')) \<and>
   py_int (time_time pre_epoch_world) = \<lceil>time_time pre_epoch_world\<rceil> \<and>
   put_keys (fst (upload_to_r2 pre_epoch_world ''QUJD'')) = [''generated_image_0.png'']"
proof -
  have b: "environ demo_world ''R2_BUCKET_NAME'' = Some ''images''"
      "environ later_world ''R2_BUCKET_NAME'' = Some ''images''"
      "environ next_second_world ''R2_BUCKET_NAME'' = Some ''images''"
      "environ pre_epoch_world ''R2_BUCKET_NAME'' = Some ''images''"
    by (simp_all add: later_world_def next_second_world_def pre_epoch_world_def demo_world_def
        demo_environ_R2)
  have p: "environ demo_world ''R2_PUBLIC_DOMAIN'' = Some ''img.example.org''"
      "environ later_world ''R2_PUBLIC_DOMAIN'' = Some ''img.example.org''"
      "environ next_second_world ''R2_PUBLIC_DOMAIN'' = Some ''img.example.org''"
      "environ pre_epoch_world ''R2_PUBLIC_DOMAIN'' = Some ''img.example.org''"
    by (simp_all add: later_world_def next_second_world_def pre_epoch_world_def demo_world_def
        demo_environ_R2)
  have d: "b64decode demo_world ''QUJD'' = Inr ''ABC''"
      "b64decode later_world ''QUJD'' = Inr ''ABC''"
      "b64decode next_second_world ''QUJD'' = Inr ''ABC''"
      "b64decode pre_epoch_world ''QUJD'' = Inr ''ABC''"
    by (simp_all add: later_world_def next_second_world_def pre_epoch_world_def demo_world_def
        demo_b64decode_def)
  have t: "time_time demo_world = 1700000000 + 1 / 2"
      "time_time later_world = 1700000000 + 9 / 10"
      "time_time next_second_world = 1700000001 + 1 / 4"
      "time_time pre_epoch_world = - 1 / 2"
    by (simp_all add: later_world_def next_second_world_def pre_epoch_world_def demo_world_def)
  have fl: "\<lfloor>time_time demo_world\<rfloor> = 1700000000" "\<lfloor>time_time later_world\<rfloor> = 1700000000"
    unfolding t by (simp_all add: floor_eq_iff)
  then have f: "\<lfloor>time_time demo_world\<rfloor> = \<lfloor>time_time later_world\<rfloor>"
    by simp
  have n: "0 \<le> time_time demo_world" "0 \<le> time_time later_world"
    and neg: "time_time pre_epoch_world < 0"
    unfolding t by simp_all
  have s: "s3_put_object demo_world a = None" for a
    by (simp add: demo_world_def put_ok_def)
  note k = object_key_from_clock [OF b(1) p(1) d(1) b(2) p(2) d(2)]
  note k' = object_key_from_clock [OF b(1) p(1) d(1) b(3) p(3) d(3)]
  note k'' = object_key_from_clock [OF b(3) p(3) d(3) b(1) p(1) d(1)]
  note e = object_key_from_clock [OF b(4) p(4) d(4) b(1) p(1) d(1)]
  have 1: "fst (upload_to_r2 demo_world ''QUJD'') =
     [CallUploadToR2 ''QUJD'',
      PutObject \<lparr> Bucket = ''images'', Key = ''generated_image_1700000000.png'',
                  Body = ''ABC'', ContentType = ''image/png'' \<rparr>]"
    using k by (simp add: demo_clock str_int_demo)
  have 2: "snd (upload_to_r2 demo_world ''QUJD'') =
     Inr ''https://img.example.org/generated_image_1700000000.png''"
    using k s by (simp add: demo_clock str_int_demo)
  from k n(1)
  have "int (decimal_value (str_int (py_int (time_time demo_world)))) = \<lfloor>time_time demo_world\<rfloor>"
    by blast
  then have 3: "int (decimal_value (str_int (py_int (time_time demo_world)))) = 1700000000"
    unfolding fl(1) .
  have 4: "put_keys (fst (upload_to_r2 demo_world ''QUJD'')) =
     put_keys (fst (upload_to_r2 later_world ''QUJD''))"
    using k n f by blast
  have "fst (upload_to_r2 next_second_world ''QUJD'') =
     [CallUploadToR2 ''QUJD'',
      PutObject \<lparr> Bucket = ''images'', Key = ''generated_image_1700000001.png'',
                  Body = ''ABC'', ContentType = ''image/png'' \<rparr>]"
    using k'' by (simp add: demo_clock str_int_demo)
  then have 5: "put_keys (fst (upload_to_r2 next_second_world ''QUJD'')) =
      [''generated_image_1700000001.png'']"
    by simp
  from k' have "put_keys (fst (upload_to_r2 demo_world ''QUJD'')) =
      put_keys (fst (upload_to_r2 next_second_world ''QUJD'')) \<longleftrightarrow>
      py_int (time_time demo_world) = py_int (time_time next_second_world)"
    by blast
  then have 6: "put_keys (fst (upload_to_r2 demo_world ''QUJD'')) \<noteq>
     put_keys (fst (upload_to_r2 next_second_world ''QUJD''))"
    by (simp add: demo_clock)
  have 7: "py_int (time_time pre_epoch_world) = \<lceil>time_time pre_epoch_world\<rceil>"
    using e neg by blast
  have "fst (upload_to_r2 pre_epoch_world ''QUJD'') =
     [CallUploadToR2 ''QUJD'',
      PutObject \<lparr> Bucket = ''images'', Key = ''generated_image_0.png'',
                  Body = ''ABC'', ContentType = ''image/png'' \<rparr>]"
    using e by (simp add: pre_epoch_clock str_int_demo)
  then have 8: "put_keys (fst (upload_to_r2 pre_epoch_world ''QUJD'')) = [''generated_image_0.png'']"
    by simp
  from t 1 2 3 4 5 6 7 8 show ?thesis
    by blast
qed

section \<open>Exceptions raised inside the try blocks\<close>

lemma generate_image_rewraps:
  assumes "snd (generate_image_try w prompt) = Inl (HTTPException c d)"
  shows "snd (generate_image w prompt) =
     Inl (HTTPException 500 (''Image generation error: '' @ str_HTTPException w c d))"
  using assms by (simp add: generate_image_outcome)

lemma upload_to_r2_rewraps:
  assumes "snd (upload_to_r2_try w image_data) = Inl (HTTPException c d)"
  shows "snd (upload_to_r2 w image_data) =
     Inl (HTTPException 500 (''R2 upload failed: '' @ str_HTTPException w c d))"
  using assms by (simp add: upload_to_r2_outcome upload_to_r2_except_def)

lemma generate_endpoint_generation_error_snd:
  assumes "truthy (dict_get payload ''prompt'')"
    and "snd (generate_image w (dict_get payload ''prompt'')) = Inl (HTTPException c d)"
  shows "snd (generate_endpoint payload w) = Inl (HTTPException c d)"
  using assms
  by (auto simp: generate_endpoint_def generate_endpoint_try_def split: prod.splits sum.splits)

lemma generate_endpoint_upload_error_snd:
  assumes "truthy (dict_get payload ''prompt'')"
    and "snd (generate_image w (dict_get payload ''prompt'')) = Inr base64_image"
    and "snd (upload_to_r2 w base64_image) = Inl (HTTPException c d)"
  shows "snd (generate_endpoint payload w) = Inl (HTTPException c d)"
  using assms
  by (auto simp: generate_endpoint_def generate_endpoint_try_def split: prod.splits sum.splits)

lemma index_1_HTTPException:
  "index_1 xs \<noteq> Inl (HTTPException c d)"
  by (cases xs rule: index_1.cases) simp_all

lemma image_of_response_json_HTTPException:
  assumes "image_of_response_json response_json = Inl (HTTPException c d)"
  shows "c = 500 \<and> d = ''Invalid image data response''"
proof (cases "py_get response_json ''result''")
  case (Inl e)
  with assms show ?thesis
    by (cases response_json) (simp_all add: image_of_response_json_def no_attribute_def)
next
  case (Inr v)
  with assms show ?thesis
    by (cases v)
       (auto simp: image_of_response_json_def no_attribute_def index_1_HTTPException
             split: if_splits)
qed

lemma check_required_vars_HTTPException:
  assumes "check_required_vars w [''R2_BUCKET_NAME'', ''R2_PUBLIC_DOMAIN''] = Inl e"
  shows "e = HTTPException 500 ''R2_BUCKET_NAME environment variable not set'' \<or>
         e = HTTPException 500 ''R2_PUBLIC_DOMAIN environment variable not set''"
  using assms by (auto split: if_splits)

text \<open>
  C9. An \<open>HTTPException\<close> raised inside the \<open>try\<close> block of \<open>generate_image\<close> leaves the
  function as \<open>HTTPException 500\<close> with the detail "Image generation error: " followed by
  \<open>str\<close> of the exception, and one raised inside the \<open>try\<close> block of \<open>upload_to_r2\<close> as
  \<open>HTTPException 500\<close> with the detail "R2 upload failed: " followed by \<open>str\<close> of the
  exception; the endpoint hands the new exception on as it is. The blocks themselves
  raise it with status 500 for a missing \<open>FLUX_API_KEY\<close>, for an invalid image data
  response and for a missing \<open>R2_BUCKET_NAME\<close> or \<open>R2_PUBLIC_DOMAIN\<close>, and for these four
  details the exception that leaves the function differs from the one raised.
\<close>

theorem http_exceptions_are_rewrapped:
  "(snd (generate_image_try w prompt) = Inl (HTTPException c d) \<longrightarrow>
      snd (generate_image w prompt) =
        Inl (HTTPException 500 (''Image generation error: '' @ str_HTTPException w c d))) \<and>
   (snd (upload_to_r2_try w image_data) = Inl (HTTPException c d) \<longrightarrow>
      snd (upload_to_r2 w image_data) =
        Inl (HTTPException 500 (''R2 upload failed: '' @ str_HTTPException w c d))) \<and>
   (truthy (dict_get payload ''prompt'') \<and>
    snd (generate_image_try w (dict_get payload ''prompt'')) = Inl (HTTPException c d) \<longrightarrow>
      snd (generate_endpoint payload w) =
        Inl (HTTPException 500 (''Image generation error: '' @ str_HTTPException w c d))) \<and>
   (truthy (dict_get payload ''prompt'') \<and>
    snd (generate_image w (dict_get payload ''prompt'')) = Inr image_data \<and>
    snd (upload_to_r2_try w image_data) = Inl (HTTPException c d) \<longrightarrow>
      snd (generate_endpoint payload w) =
        Inl (HTTPException 500 (''R2 upload failed: '' @ str_HTTPException w c d))) \<and>
   (environ w ''FLUX_API_KEY'' = None \<longrightarrow>
      snd (generate_image_try w prompt) =
        Inl (HTTPException 500 ''FLUX_API_KEY environment variable not set'')) \<and>
   (image_of_response_json response_json = Inl (HTTPException c d) \<longrightarrow>
      c = 500 \<and> d = ''Invalid image data response'') \<and>
   (check_required_vars w [''R2_BUCKET_NAME'', ''R2_PUBLIC_DOMAIN''] = Inl e \<longrightarrow>
      snd (upload_to_r2_try w image_data) = Inl e \<and>
      (e = HTTPException 500 ''R2_BUCKET_NAME environment variable not set'' \<or>
       e = HTTPException 500 ''R2_PUBLIC_DOMAIN environment variable not set'')) \<and>
   (d \<in> {''FLUX_API_KEY environment variable not set'', ''Invalid image data response'',
          ''R2_BUCKET_NAME environment variable not set'',
          ''R2_PUBLIC_DOMAIN environment variable not set''} \<longrightarrow>
      ''Image generation error: '' @ str_HTTPException w c d \<noteq> d \<and>
      ''R2 upload failed: '' @ str_HTTPException w c d \<noteq> d)"
proof (intro conjI impI)
  assume "snd (generate_image_try w prompt) = Inl (HTTPException c d)"
  then show "snd (generate_image w prompt) =
      Inl (HTTPException 500 (''Image generation error: '' @ str_HTTPException w c d))"
    by (rule generate_image_rewraps)
next
  assume "snd (upload_to_r2_try w image_data) = Inl (HTTPException c d)"
  then show "snd (upload_to_r2 w image_data) =
      Inl (HTTPException 500 (''R2 upload failed: '' @ str_HTTPException w c d))"
    by (rule upload_to_r2_rewraps)
next
  assume a: "truthy (dict_get payload ''prompt'') \<and>
    snd (generate_image_try w (dict_get payload ''prompt'')) = Inl (HTTPException c d)"
  then have "snd (generate_image w (dict_get payload ''prompt'')) =
      Inl (HTTPException 500 (''Image generation error: '' @ str_HTTPException w c d))"
    by (simp add: generate_image_rewraps)
  with a show "snd (generate_endpoint payload w) =
      Inl (HTTPException 500 (''Image generation error: '' @ str_HTTPException w c d))"
    by (simp add: generate_endpoint_generation_error_snd)
next
  assume a: "truthy (dict_get payload ''prompt'') \<and>
    snd (generate_image w (dict_get payload ''prompt'')) = Inr image_data \<and>
    snd (upload_to_r2_try w image_data) = Inl (HTTPException c d)"
  then have "snd (upload_to_r2 w image_data) =
      Inl (HTTPException 500 (''R2 upload failed: '' @ str_HTTPException w c d))"
    by (simp add: upload_to_r2_rewraps)
  with a show "snd (generate_endpoint payload w) =
      Inl (HTTPException 500 (''R2 upload failed: '' @ str_HTTPException w c d))"
    by (simp add: generate_endpoint_upload_error_snd)
next
  assume "environ w ''FLUX_API_KEY'' = None"
  then show "snd (generate_image_try w prompt) =
      Inl (HTTPException 500 ''FLUX_API_KEY environment variable not set'')"
    by (simp add: generate_image_try_def)
next
  assume "image_of_response_json response_json = Inl (HTTPException c d)"
  then have "c = 500 \<and> d = ''Invalid image data response''"
    by (rule image_of_response_json_HTTPException)
  then show "c = 500" and "d = ''Invalid image data response''"
    by simp_all
next
  assume a: "check_required_vars w [''R2_BUCKET_NAME'', ''R2_PUBLIC_DOMAIN''] = Inl e"
  then show "snd (upload_to_r2_try w image_data) = Inl e"
    by (simp add: upload_to_r2_try_def)
  from a show "e = HTTPException 500 ''R2_BUCKET_NAME environment variable not set'' \<or>
       e = HTTPException 500 ''R2_PUBLIC_DOMAIN environment variable not set''"
    by (rule check_required_vars_HTTPException)
next
  assume a: "d \<in> {''FLUX_API_KEY environment variable not set'', ''Invalid image data response'',
          ''R2_BUCKET_NAME environment variable not set'',
          ''R2_PUBLIC_DOMAIN environment variable not set''}"
  then show "''Image generation error: '' @ str_HTTPException w c d \<noteq> d"
    by auto
  from a show "''R2 upload failed: '' @ str_HTTPException w c d \<noteq> d"
    by auto
qed
lemma generate_image_demo_answer:
  assumes "environ w ''FLUX_API_KEY'' = Some api_key"
    and "http_client_post w =
           answer_with 200 (Inr (JObj [(''result'', JStr ''data:image/png;base64,QUJD'')]))"
  shows "generate_image w prompt =
     ([CallGenerateImage prompt, HttpPost (generate_request api_key prompt)], Inr ''QUJD'')"
proof -
  have "image_of_response_json (JObj [(''result'', JStr ''data:image/png;base64,QUJD'')]) =
      Inr ''QUJD''"
    by (simp add: image_of_response_json_def dict_get_def data_url_prefix_def str_split.simps)
  then show ?thesis
    by (simp add: generate_image_outcome generate_image_try_posted [OF assms(1)] assms(2)
        answer_with_def raise_for_status_def)
qed

lemma str_int_500: "str_int 500 = ''500''"
  by (simp add: str_int_def digit_char_def str_nat.simps)

theorem http_exceptions_are_rewrapped_witness:
  "environ no_api_key_world ''FLUX_API_KEY'' = None \<and>
   snd (generate_image_try no_api_key_world (JStr ''a cat'')) =
     Inl (HTTPException 500 ''FLUX_API_KEY environment variable not set'') \<and>
   snd (generate_image no_api_key_world (JStr ''a cat'')) =
     Inl (HTTPException 500
       ''Image generation error: 500: FLUX_API_KEY environment variable not set'') \<and>
   snd (generate_endpoint [(''prompt'', JStr ''a cat'')] no_api_key_world) =
     Inl (HTTPException 500
       ''Image generation error: 500: FLUX_API_KEY environment variable not set'') \<and>
   image_of_response_json (JObj []) = Inl (HTTPException 500 ''Invalid image data response'') \<and>
   check_required_vars no_bucket_world [''R2_BUCKET_NAME'', ''R2_PUBLIC_DOMAIN''] =
     Inl (HTTPException 500 ''R2_BUCKET_NAME environment variable not set'') \<and>
   snd (upload_to_r2 no_bucket_world ''QUJD'') =
     Inl (HTTPException 500
       ''R2 upload failed: 500: R2_BUCKET_NAME environment variable not set'') \<and>
   snd (generate_image no_bucket_world (JStr ''a cat'')) = Inr ''QUJD'' \<and>
   snd (generate_endpoint [(''prompt'', JStr ''a cat'')] no_bucket_world) =
     Inl (HTTPException 500
       ''R2 upload failed: 500: R2_BUCKET_NAME environment variable not set'')"
proof -
  let ?payload = "[(''prompt'', JStr ''a cat'')]"
  let ?flux = "''FLUX_API_KEY environment variable not set''"
  let ?bucket = "''R2_BUCKET_NAME environment variable not set''"
  have t: "truthy (dict_get ?payload ''prompt'')" and p: "dict_get ?payload ''prompt'' = JStr ''a cat''"
    by (simp_all add: dict_get_def)
  have a: "environ no_api_key_world ''FLUX_API_KEY'' = None"
    by (simp add: no_api_key_world_def)
  have sa: "str_HTTPException no_api_key_world 500 d = ''500: '' @ d" for d
    by (simp add: no_api_key_world_def demo_world_def demo_str_HTTPException_def str_int_500)
  have sb: "str_HTTPException no_bucket_world 500 d = ''500: '' @ d" for d
    by (simp add: no_bucket_world_def demo_world_def demo_str_HTTPException_def str_int_500)
  have i: "image_of_response_json (JObj []) = Inl (HTTPException 500 ''Invalid image data response'')"
    by (simp add: image_of_response_json_def dict_get_def)
  have c: "check_required_vars no_bucket_world [''R2_BUCKET_NAME'', ''R2_PUBLIC_DOMAIN''] =
      Inl (HTTPException 500 ?bucket)"
    by (simp add: no_bucket_world_def)
  have g: "snd (generate_image no_bucket_world (JStr ''a cat'')) = Inr ''QUJD''"
    by (subst generate_image_demo_answer [of _ "''secret''"])
       (simp_all add: no_bucket_world_def demo_world_def demo_environ_def)
  note m1 = http_exceptions_are_rewrapped [of no_api_key_world "JStr ''a cat''" 500 ?flux
      "''QUJD''" ?payload "JObj []" "HTTPException 500 ?bucket"]
  note m2 = http_exceptions_are_rewrapped [of no_bucket_world "JStr ''a cat''" 500 ?bucket
      "''QUJD''" ?payload "JObj []" "HTTPException 500 ?bucket"]
  from m1 a have 1: "snd (generate_image_try no_api_key_world (JStr ''a cat'')) =
      Inl (HTTPException 500 ?flux)"
    by blast
  from m1 1 have 2: "snd (generate_image no_api_key_world (JStr ''a cat'')) =
      Inl (HTTPException 500 (''Image generation error: '' @ ''500: '' @ ?flux))"
    unfolding sa [symmetric] by blast
  from m1 1 t have 3: "snd (generate_endpoint ?payload no_api_key_world) =
      Inl (HTTPException 500 (''Image generation error: '' @ ''500: '' @ ?flux))"
    unfolding sa [symmetric] p by blast
  from m2 c have 4: "snd (upload_to_r2_try no_bucket_world ''QUJD'') = Inl (HTTPException 500 ?bucket)"
    by blast
  from m2 4 have 5: "snd (upload_to_r2 no_bucket_world ''QUJD'') =
      Inl (HTTPException 500 (''R2 upload failed: '' @ ''500: '' @ ?bucket))"
    unfolding sb [symmetric] by blast
  from m2 4 t g have 6: "snd (generate_endpoint ?payload no_bucket_world) =
      Inl (HTTPException 500 (''R2 upload failed: '' @ ''500: '' @ ?bucket))"
    unfolding sb [symmetric] p by blast
  from a 1 2 3 i c 5 g 6 show ?thesis
    by simp
qed

section \<open>The endpoint as a whole\<close>

lemma generate_image_error_is_HTTPException:
  assumes "snd (generate_image w p) = Inl e"
  shows "\<exists>c d. e = HTTPException c d"
  using assms generate_image_except_HTTPException [of w]
  by (auto simp: generate_image_outcome split: sum.splits)

lemma upload_to_r2_error_is_HTTPException:
  assumes "snd (upload_to_r2 w image_data) = Inl e"
  shows "\<exists>c d. e = HTTPException c d"
  using assms
  by (auto simp: upload_to_r2_outcome upload_to_r2_except_def split: sum.splits)

lemma generate_endpoint_accept:
  assumes "truthy (dict_get payload ''prompt'')"
  shows "generate_endpoint payload w =
     (case snd (generate_image w (dict_get payload ''prompt'')) of
        Inl e \<Rightarrow> (fst (generate_image w (dict_get payload ''prompt'')), Inl e)
      | Inr base64_image \<Rightarrow>
          (fst (generate_image w (dict_get payload ''prompt'')) @ fst (upload_to_r2 w base64_image),
           (case snd (upload_to_r2 w base64_image) of
              Inl e \<Rightarrow> Inl e
            | Inr image_url \<Rightarrow> Inr (JObj [(''image_url'', JStr image_url)]))))"
proof (cases "snd (generate_image w (dict_get payload ''prompt''))")
  case (Inl e)
  then obtain c d where "e = HTTPException c d"
    using generate_image_error_is_HTTPException by blast
  with Inl assms show ?thesis
    by (auto simp: generate_endpoint_def generate_endpoint_try_def split: prod.splits sum.splits)
next
  case (Inr base64_image)
  show ?thesis
  proof (cases "snd (upload_to_r2 w base64_image)")
    case (Inl e)
    then obtain c d where "e = HTTPException c d"
      using upload_to_r2_error_is_HTTPException by blast
    with Inl Inr assms show ?thesis
      by (auto simp: generate_endpoint_def generate_endpoint_try_def split: prod.splits sum.splits)
  next
    case url: (Inr image_url)
    with Inr assms show ?thesis
      by (auto simp: generate_endpoint_def generate_endpoint_try_def split: prod.splits sum.splits)
  qed
qed

lemma generate_image_no_upload:
  "CallUploadToR2 d \<notin> set (fst (generate_image w p))"
  by (auto simp: generate_image_outcome generate_image_try_def Let_def split: sum.splits if_splits)

lemma upload_to_r2_own_call:
  assumes "CallUploadToR2 d \<in> set (fst (upload_to_r2 w image_data))"
  shows "d = image_data"
  using assms
  by (auto simp: upload_to_r2_outcome upload_to_r2_try_def Let_def split: sum.splits if_splits)

text \<open>
  C7. The endpoint returns a body exactly when the prompt is truthy, \<open>generate_image\<close>
  returns a text and \<open>upload_to_r2\<close> returns a URL for that text, and the body is then the
  object with the one field \<open>image_url\<close> holding that URL; in every other case it raises
  an \<open>HTTPException\<close>. A call of the uploader in the trace of a request was made with
  the text that \<open>generate_image\<close> returned, and the trace is the trace of \<open>generate_image\<close>
  followed by the trace of that call.
\<close>

theorem upload_follows_generation:
  "(snd (generate_endpoint payload w) = Inr body \<longleftrightarrow>
      truthy (dict_get payload ''prompt'') \<and>
      (\<exists>base64_image image_url.
         snd (generate_image w (dict_get payload ''prompt'')) = Inr base64_image \<and>
         snd (upload_to_r2 w base64_image) = Inr image_url \<and>
         body = JObj [(''image_url'', JStr image_url)])) \<and>
   (CallUploadToR2 d \<in> set (fst (generate_endpoint payload w)) \<longrightarrow>
      truthy (dict_get payload ''prompt'') \<and>
      snd (generate_image w (dict_get payload ''prompt'')) = Inr d \<and>
      fst (generate_endpoint payload w) =
        fst (generate_image w (dict_get payload ''prompt'')) @ fst (upload_to_r2 w d)) \<and>
   ((\<exists>b. snd (generate_endpoint payload w) = Inr b) \<or>
    (\<exists>c m. snd (generate_endpoint payload w) = Inl (HTTPException c m)))"
proof (cases "truthy (dict_get payload ''prompt'')")
  case False
  then have "generate_endpoint payload w = ([], Inl (HTTPException 400 ''Prompt is required''))"
    by (rule generate_endpoint_reject)
  with False show ?thesis
    by simp
next
  case True
  let ?p = "dict_get payload ''prompt''"
  note shape = generate_endpoint_accept [OF True, of w]
  show ?thesis
  proof (cases "snd (generate_image w ?p)")
    case (Inl e)
    then obtain c m where "e = HTTPException c m"
      using generate_image_error_is_HTTPException by blast
    with Inl True show ?thesis
      by (simp add: shape generate_image_no_upload)
  next
    case (Inr base64_image)
    show ?thesis
    proof (cases "snd (upload_to_r2 w base64_image)")
      case (Inl e)
      then obtain c m where "e = HTTPException c m"
        using upload_to_r2_error_is_HTTPException by blast
      with Inl Inr True show ?thesis
        using upload_to_r2_own_call [of d w base64_image]
        by (auto simp: shape generate_image_no_upload)
    next
      case url: (Inr image_url)
      with Inr True show ?thesis
        using upload_to_r2_own_call [of d w base64_image]
        by (auto simp: shape generate_image_no_upload)
    qed
  qed
qed
lemma upload_to_r2_demo:
  "upload_to_r2 demo_world ''QUJD'' =
     ([CallUploadToR2 ''QUJD'',
       PutObject \<lparr> Bucket = ''images'', Key = ''generated_image_1700000000.png'',
                   Body = ''ABC'', ContentType = ''image/png'' \<rparr>],
      Inr ''https://img.example.org/generated_image_1700000000.png'')"
proof -
  have b: "environ demo_world ''R2_BUCKET_NAME'' = Some ''images''"
    and p: "environ demo_world ''R2_PUBLIC_DOMAIN'' = Some ''img.example.org''"
    and d: "b64decode demo_world ''QUJD'' = Inr ''ABC''"
    and s: "s3_put_object demo_world a = None" for a
    by (simp_all add: demo_world_def demo_environ_R2 demo_b64decode_def put_ok_def)
  have n: "object_name (py_int (time_time demo_world)) = ''generated_image_1700000000.png''"
    by (simp add: demo_clock object_name_def str_int_demo)
  show ?thesis
    by (simp add: upload_to_r2_outcome upload_to_r2_try_put [OF b p d] n s)
qed

theorem upload_follows_generation_witness:
  "truthy (dict_get [(''prompt'', JStr ''a cat'')] ''prompt'') \<and>
   snd (generate_image demo_world (JStr ''a cat'')) = Inr ''QUJD'' \<and>
   snd (upload_to_r2 demo_world ''QUJD'') =
     Inr ''https://img.example.org/generated_image_1700000000.png'' \<and>
   snd (generate_endpoint [(''prompt'', JStr ''a cat'')] demo_world) =
     Inr (JObj [(''image_url'',
                 JStr ''https://img.example.org/generated_image_1700000000.png'')]) \<and>
   CallUploadToR2 ''QUJD'' \<in> set (fst (generate_endpoint [(''prompt'', JStr ''a cat'')] demo_world)) \<and>
   fst (generate_endpoint [(''prompt'', JStr ''a cat'')] demo_world) =
     fst (generate_image demo_world (JStr ''a cat'')) @ fst (upload_to_r2 demo_world ''QUJD'')"
proof -
  let ?payload = "[(''prompt'', JStr ''a cat'')]"
  let ?url = "''https://img.example.org/generated_image_1700000000.png''"
  have p: "dict_get ?payload ''prompt'' = JStr ''a cat''" and t: "truthy (dict_get ?payload ''prompt'')"
    by (simp_all add: dict_get_def)
  have g: "generate_image demo_world (JStr ''a cat'') =
      ([CallGenerateImage (JStr ''a cat''), HttpPost (generate_request ''secret'' (JStr ''a cat''))],
       Inr ''QUJD'')"
    by (rule generate_image_demo_answer) (simp_all add: demo_world_def demo_environ_FLUX)
  have u: "snd (upload_to_r2 demo_world ''QUJD'') = Inr ?url"
    by (simp add: upload_to_r2_demo)
  have c: "CallUploadToR2 ''QUJD'' \<in> set (fst (generate_endpoint ?payload demo_world))"
    by (simp add: generate_endpoint_accept [OF t] p g upload_to_r2_demo)
  note m = upload_follows_generation [of ?payload demo_world "JObj [(''image_url'', JStr ?url)]"
      "''QUJD''"]
  from m t g u have 1: "snd (generate_endpoint ?payload demo_world) =
      Inr (JObj [(''image_url'', JStr ?url)])"
    unfolding p by simp
  from m c have 2: "fst (generate_endpoint ?payload demo_world) =
      fst (generate_image demo_world (JStr ''a cat'')) @ fst (upload_to_r2 demo_world ''QUJD'')"
    unfolding p by blast
  from t g u 1 c 2 show ?thesis
    by simp
qed

section \<open>What the validation lets through\<close>

lemma generate_image_except_detail:
  "generate_image_except w e \<noteq> HTTPException 400 ''Prompt is required''"
  by (cases e) simp_all

text \<open>
  C10. The validation tests the truth value of the prompt and nothing else. For every
  payload whose \<open>prompt\<close> is a truthy value (a non-empty string, also one of spaces only, a
  non-zero number, \<open>True\<close>, a non-empty list or a non-empty object), the endpoint calls
  \<open>generate_image\<close> with that value, does not raise the 400 "Prompt is required", and,
  when \<open>FLUX_API_KEY\<close> is set, the outbound request carries that value as its \<open>prompt\<close>
  field.
\<close>

theorem truthy_prompt_is_forwarded:
  assumes "map_of payload ''prompt'' = Some v"
    and "truthy v"
  shows "(\<exists>evs r. generate_endpoint payload w = (CallGenerateImage v # evs, r)) \<and>
     snd (generate_endpoint payload w) \<noteq> Inl (HTTPException 400 ''Prompt is required'') \<and>
     (environ w ''FLUX_API_KEY'' = Some api_key \<longrightarrow>
        HttpPost (generate_request api_key v) \<in> set (fst (generate_endpoint payload w)) \<and>
        map_of (files (generate_request api_key v)) ''prompt'' = Some v)"
proof -
  have p: "dict_get payload ''prompt'' = v"
    using assms(1) by (simp add: dict_get_def)
  with assms(2) have t: "truthy (dict_get payload ''prompt'')"
    by simp
  note shape = generate_endpoint_accept [OF t, of w, unfolded p]
  have 1: "\<exists>evs r. generate_endpoint payload w = (CallGenerateImage v # evs, r)"
    by (cases "snd (generate_image w v)") (simp_all add: shape, simp_all add: generate_image_outcome)
  have 2: "snd (generate_endpoint payload w) \<noteq> Inl (HTTPException 400 ''Prompt is required'')"
  proof (cases "snd (generate_image w v)")
    case (Inl e)
    then show ?thesis
      by (auto simp: shape generate_image_outcome generate_image_except_detail split: sum.splits)
  next
    case (Inr base64_image)
    then show ?thesis
      by (auto simp: shape upload_to_r2_outcome upload_to_r2_except_def split: sum.splits)
  qed
  have 3: "HttpPost (generate_request api_key v) \<in> set (fst (generate_endpoint payload w)) \<and>
        map_of (files (generate_request api_key v)) ''prompt'' = Some v"
    if k: "environ w ''FLUX_API_KEY'' = Some api_key"
  proof -
    have "HttpPost (generate_request api_key v) \<in> set (fst (generate_image w v))"
      by (simp add: generate_image_outcome generate_image_try_posted [OF k])
    then have "HttpPost (generate_request api_key v) \<in> set (fst (generate_endpoint payload w))"
      by (cases "snd (generate_image w v)") (simp_all add: shape)
    then show ?thesis
      by (simp add: generate_request_def)
  qed
  from 1 2 3 show ?thesis
    by blast
qed

theorem truthy_prompt_is_forwarded_witness:
  "map_of [(''prompt'', JInt 7)] ''prompt'' = Some (JInt 7) \<and>
   truthy (JInt 7) \<and>
   environ demo_world ''FLUX_API_KEY'' = Some ''secret'' \<and>
   (\<exists>evs r. generate_endpoint [(''prompt'', JInt 7)] demo_world = (CallGenerateImage (JInt 7) # evs, r)) \<and>
   HttpPost (generate_request ''secret'' (JInt 7))
     \<in> set (fst (generate_endpoint [(''prompt'', JInt 7)] demo_world)) \<and>
   map_of (files (generate_request ''secret'' (JInt 7))) ''prompt'' = Some (JInt 7)"
proof -
  have a: "map_of [(''prompt'', JInt 7)] ''prompt'' = Some (JInt 7)"
    by simp
  have t: "truthy (JInt 7)"
    by simp
  have k: "environ demo_world ''FLUX_API_KEY'' = Some ''secret''"
    by (simp add: demo_world_def demo_environ_FLUX)
  from truthy_prompt_is_forwarded [OF a t, of demo_world "''secret''"] a t k show ?thesis
    by blast
qed

lemma truthy_examples:
  "truthy (JStr ''   '')" "truthy (JInt 7)" "truthy (JBool True)"
  "truthy (JList [JNull])" "truthy (JObj [(''a'', JNull)])" "truthy (JFloat (Finite (1 / 2)))"
  by simp_all

end
